theory Spec2Isabelle
  imports Main
begin

section \<open>The Asset reconciliation handler of rafter\<close>

text \<open>
  A shallow embedding of package \<open>asset\<close> (the handler behind \<open>Handler.Do\<close>).

  Conventions of the embedding:
  \<^item> A \<open>time.Time\<close> is a record of its seconds, its nanoseconds and its optional
    monotonic clock reading; \<open>Add\<close>, \<open>Before\<close>, \<open>After\<close> and \<open>IsZero\<close> follow Go's
    \<open>time\<close> package, with the saturation of the seconds and the 64-bit wrap-around
    written out. A \<open>time.Duration\<close> is an \<open>int\<close> of nanoseconds.
  \<^item> A Go \<open>error\<close> is a value of \<open>error\<close>; a nil error is \<open>None\<close>.
  \<^item> Every collaborator of the handler (bucket probe, store, loader, webhooks) is a
    field of the handler record: a function from the call's arguments to what the call
    returns. The wall clock read by \<open>v1.Now()\<close> and the message templates of
    \<open>reason.Message()\<close> are fields as well.
  \<^item> Every call of a collaborator and every event given to the recorder is appended to
    a trace, in program order. Log lines are not part of the trace.
  \<^item> Dereferencing a nil \<open>*CommonBucketStatus\<close> is the result \<open>Panic\<close>.
\<close>

subsection \<open>Data model\<close>

type_synonym duration = int

text \<open>
  \<open>time.Time\<close>. \<open>sec\<close> is what \<open>t.sec()\<close> returns, the seconds since January 1 of
  year 1; \<open>nsec\<close> is \<open>t.nsec()\<close>; \<open>monotonic\<close> is the monotonic clock reading, present
  when the \<open>hasMonotonic\<close> bit of \<open>wall\<close> is set. With a monotonic reading Go keeps the
  seconds in 33 bits counted from 1885 (\<open>wallToInternal\<close>), without one in the 64-bit
  \<open>ext\<close>.
\<close>

record Time =
  sec :: int
  nsec :: int
  monotonic :: "int option"

definition wallToInternal :: int where
  "wallToInternal = (1884 * 365 + 1884 div 4 - 1884 div 100 + 1884 div 400) * 86400"

text \<open>Arithmetic of \<open>int64\<close>: the sum wraps around.\<close>

definition wrap64 :: "int \<Rightarrow> int" where
  "wrap64 x = (x + 2 ^ 63) mod 2 ^ 64 - 2 ^ 63"

text \<open>Go's \<open>/\<close> and \<open>%\<close> on integers truncate towards zero.\<close>

definition quot :: "int \<Rightarrow> int \<Rightarrow> int" where
  "quot a b = (if a < 0 then - ((- a) div b) else a div b)"

definition rem :: "int \<Rightarrow> int \<Rightarrow> int" where
  "rem a b = (if a < 0 then - ((- a) mod b) else a mod b)"

definition stripMono :: "Time \<Rightarrow> Time" where
  "stripMono t = t \<lparr> monotonic := None \<rparr>"

text \<open>
  \<open>addSec\<close>: with a monotonic reading the seconds stay in their 33 bits when the sum
  fits; otherwise the reading is dropped and the sum of the 64-bit seconds saturates,
  as in the current releases of the standard library.
\<close>

definition addSec :: "Time \<Rightarrow> int \<Rightarrow> Time" where
  "addSec t d =
     (if monotonic t \<noteq> None
         \<and> 0 \<le> sec t - wallToInternal + d \<and> sec t - wallToInternal + d \<le> 2 ^ 33 - 1
      then t \<lparr> sec := sec t + d \<rparr>
      else
        (let t' = stripMono t;
             sum = wrap64 (sec t' + d)
         in if (sum > sec t') = (d > 0) then t' \<lparr> sec := sum \<rparr>
            else if d > 0 then t' \<lparr> sec := 2 ^ 63 - 1 \<rparr>
            else t' \<lparr> sec := - (2 ^ 63 - 1) \<rparr>))"

text \<open>
  \<open>Time.Add\<close>: the nanoseconds are brought back into one second, \<open>addSec\<close> adds the
  seconds, and a monotonic reading that would leave \<open>int64\<close> is dropped.
\<close>

definition Add :: "Time \<Rightarrow> duration \<Rightarrow> Time" where
  "Add t d =
     (let dsec = quot d 1000000000;
          ns = nsec t + rem d 1000000000;
          (dsec, ns) =
            (if ns \<ge> 1000000000 then (dsec + 1, ns - 1000000000)
             else if ns < 0 then (dsec - 1, ns + 1000000000)
             else (dsec, ns));
          t1 = addSec (t \<lparr> nsec := ns \<rparr>) dsec
      in case monotonic t1 of
           None \<Rightarrow> t1
         | Some m \<Rightarrow>
             (let te = wrap64 (m + d)
              in if (d < 0 \<and> te > m) \<or> (d > 0 \<and> te < m) then stripMono t1
                 else t1 \<lparr> monotonic := Some te \<rparr>))"

text \<open>
  \<open>Before\<close> and \<open>After\<close> compare the monotonic readings when both times have one, and
  seconds and nanoseconds otherwise.
\<close>

definition Before :: "Time \<Rightarrow> Time \<Rightarrow> bool" where
  "Before t u =
     (case (monotonic t, monotonic u) of
        (Some a, Some b) \<Rightarrow> a < b
      | _ \<Rightarrow> sec t < sec u \<or> (sec t = sec u \<and> nsec t < nsec u))"

definition After :: "Time \<Rightarrow> Time \<Rightarrow> bool" where
  "After t u =
     (case (monotonic t, monotonic u) of
        (Some a, Some b) \<Rightarrow> a > b
      | _ \<Rightarrow> sec t > sec u \<or> (sec t = sec u \<and> nsec t > nsec u))"

definition IsZero :: "Time \<Rightarrow> bool" where
  "IsZero t \<longleftrightarrow> sec t = 0 \<and> nsec t = 0"

text \<open>Wall-clock nanoseconds since January 1 of year 1.\<close>

definition nanos :: "Time \<Rightarrow> int" where
  "nanos t = sec t * 1000000000 + nsec t"

datatype error = Error string | Wrap error string

text \<open>\<open>err.Error()\<close>; \<open>errors.Wrap\<close> prefixes its message.\<close>

fun errorString :: "error \<Rightarrow> string" where
  "errorString (Error s) = s"
| "errorString (Wrap e m) = m @ '': '' @ errorString e"

text \<open>
  Modelled from the spec: package \<open>v1beta1\<close> is not part of the sources at hand. Its
  types appear here with the fields and constants that the handler uses.
  \<open>AssetPhase\<close> and \<open>AssetReason\<close> are closed enumerations; \<open>AssetPhaseUnset\<close> and
  \<open>AssetReasonUnset\<close> stand for the zero value of a status that was never written.
  The mode of a source is one of single, package and index; a webhook service is
  taken as its address.
\<close>

datatype AssetPhase = AssetReady | AssetPending | AssetFailed | AssetPhaseUnset

datatype AssetReason =
    AssetScheduled
  | AssetBucketNotReady
  | AssetBucketError
  | AssetPulled
  | AssetPullingFailed
  | AssetMutated
  | AssetMutationError
  | AssetMutationFailed
  | AssetValidated
  | AssetValidationError
  | AssetValidationFailed
  | AssetMetadataExtracted
  | AssetMetadataExtractionFailed
  | AssetUploaded
  | AssetUploadFailed
  | AssetCleaned
  | AssetCleanupError
  | AssetMissingContent
  | AssetRemoteContentVerificationError
  | AssetReasonUnset

datatype AssetMode = AssetSingle | AssetPackage | AssetIndex

type_synonym AssetWebhookService = string

text \<open>\<open>runtime.RawExtension\<close> and \<open>json.RawMessage\<close>: raw bytes.\<close>

type_synonym RawMessage = string

datatype RawExtension = RawExtension (Raw: RawMessage)

record AssetFile =
  fileName :: string
  fileMetadata :: "RawExtension option"

record AssetStatusRef =
  BaseURL :: string
  Files :: "AssetFile list"

record CommonAssetStatus =
  Phase :: AssetPhase
  Reason :: AssetReason
  Message :: string
  LastHeartbeatTime :: Time
  ObservedGeneration :: int
  AssetRef :: AssetStatusRef

record AssetSource =
  URL :: string
  Mode :: AssetMode
  Filter :: string
  MutationWebhookService :: "AssetWebhookService list"
  ValidationWebhookService :: "AssetWebhookService list"
  MetadataWebhookService :: "AssetWebhookService list"

record CommonAssetSpec =
  BucketRefName :: string
  Source :: AssetSource

record CommonBucketStatus =
  RemoteName :: string
  BucketURL :: string

text \<open>The part of \<open>MetaAccessor\<close> the handler reads.\<close>

record MetaAccessor =
  GetNamespace :: string
  GetName :: string
  GetGeneration :: int
  GetDeletionTimestamp :: "Time option"

text \<open>
  Modelled from the spec: package \<open>assethook\<close> is not part of the sources at hand; its
  \<open>Result\<close> is \<open>{success, messages}\<close> and its \<open>File\<close> is \<open>{name, metadata_json}\<close>,
  the metadata being a pointer that may be nil.
\<close>

record Result =
  Success :: bool
  Messages :: string

record File =
  metaName :: string
  metaMetadata :: "RawMessage option"

subsection \<open>Collaborators and the trace of their calls\<close>

datatype call =
    CallFindBucketStatus string string
  | CallListObjects string string
  | CallDeleteObjects string string
  | CallContainsAllObjects string string "string list"
  | CallPutObjects string string string "string list"
  | CallLoad string string AssetMode string
  | CallClean string
  | CallMutate string "string list" "AssetWebhookService list"
  | CallValidate string "string list" "AssetWebhookService list"
  | CallExtract string "string list" "AssetWebhookService list"
  | Eventf string AssetReason "string list"

record assetHandler =
  findBucketStatus :: "string \<Rightarrow> string \<Rightarrow> CommonBucketStatus option \<times> bool \<times> error option"
  ListObjects :: "string \<Rightarrow> string \<Rightarrow> string list \<times> error option"
  DeleteObjects :: "string \<Rightarrow> string \<Rightarrow> error option"
  ContainsAllObjects :: "string \<Rightarrow> string \<Rightarrow> string list \<Rightarrow> bool \<times> error option"
  PutObjects :: "string \<Rightarrow> string \<Rightarrow> string \<Rightarrow> string list \<Rightarrow> error option"
  Load :: "string \<Rightarrow> string \<Rightarrow> AssetMode \<Rightarrow> string \<Rightarrow> string \<times> string list \<times> error option"
  Mutate :: "string \<Rightarrow> string list \<Rightarrow> AssetWebhookService list \<Rightarrow> Result \<times> error option"
  Validate :: "string \<Rightarrow> string list \<Rightarrow> AssetWebhookService list \<Rightarrow> Result \<times> error option"
  Extract :: "string \<Rightarrow> string list \<Rightarrow> AssetWebhookService list \<Rightarrow> File list \<times> error option"
  relistInterval :: duration
  v1Now :: Time
  reasonMessagef :: "AssetReason \<Rightarrow> string list \<Rightarrow> string"

text \<open>What a call of the handler gives back: the two return values, or a panic.\<close>

datatype outcome = Return "CommonAssetStatus option" "error option" | Panic

subsection \<open>Predicates of the dispatch\<close>

definition isOnAddOrUpdate :: "MetaAccessor \<Rightarrow> CommonAssetStatus \<Rightarrow> bool" where
  "isOnAddOrUpdate object status \<longleftrightarrow> ObservedGeneration status \<noteq> GetGeneration object"

definition isOnPending :: "assetHandler \<Rightarrow> CommonAssetStatus \<Rightarrow> Time \<Rightarrow> bool" where
  "isOnPending h status now =
     (if Phase status = AssetPending then
        (if Reason status = AssetBucketNotReady
            \<and> Before now (Add (LastHeartbeatTime status) (relistInterval h))
         then False else True)
      else False)"

text \<open>\<open>IsZero\<close> of a nil \<open>*v1.Time\<close> is true.\<close>

definition isOnDelete :: "MetaAccessor \<Rightarrow> bool" where
  "isOnDelete object =
     (\<not> (case GetDeletionTimestamp object of None \<Rightarrow> True | Some t \<Rightarrow> IsZero t))"

definition isOnFailed :: "CommonAssetStatus \<Rightarrow> bool" where
  "isOnFailed status \<longleftrightarrow>
     Phase status = AssetFailed
     \<and> Reason status \<noteq> AssetValidationFailed
     \<and> Reason status \<noteq> AssetMutationFailed"

definition isOnReady :: "assetHandler \<Rightarrow> CommonAssetStatus \<Rightarrow> Time \<Rightarrow> bool" where
  "isOnReady h status now \<longleftrightarrow>
     Phase status = AssetReady
     \<and> After now (Add (LastHeartbeatTime status) (relistInterval h))"

subsection \<open>Building a status\<close>

definition getStatus ::
  "assetHandler \<Rightarrow> MetaAccessor \<Rightarrow> AssetPhase \<Rightarrow> AssetReason \<Rightarrow> string list \<Rightarrow> CommonAssetStatus"
where
  "getStatus h object phase reason args =
     \<lparr> Phase = phase,
       Reason = reason,
       Message = reasonMessagef h reason args,
       LastHeartbeatTime = v1Now h,
       ObservedGeneration = GetGeneration object,
       AssetRef = \<lparr> BaseURL = [], Files = [] \<rparr> \<rparr>"

definition getReadyStatus ::
  "assetHandler \<Rightarrow> MetaAccessor \<Rightarrow> string \<Rightarrow> AssetFile list \<Rightarrow> AssetReason \<Rightarrow> string list
     \<Rightarrow> CommonAssetStatus"
where
  "getReadyStatus h object baseUrl files reason args =
     (let status = getStatus h object AssetReady reason args
      in status \<lparr> AssetRef := \<lparr> BaseURL = baseUrl, Files = files \<rparr> \<rparr>)"

definition getBaseUrl :: "string \<Rightarrow> string \<Rightarrow> string" where
  "getBaseUrl bucketUrl assetName = bucketUrl @ ''/'' @ assetName"

definition recordNormalEventf :: "AssetReason \<Rightarrow> string list \<Rightarrow> call" where
  "recordNormalEventf reason args = Eventf ''Normal'' reason args"

definition recordWarningEventf :: "AssetReason \<Rightarrow> string list \<Rightarrow> call" where
  "recordWarningEventf reason args = Eventf ''Warning'' reason args"

subsection \<open>File lists\<close>

fun extractNames :: "AssetFile list \<Rightarrow> string list" where
  "extractNames [] = []"
| "extractNames (file # files) = fileName file # extractNames files"

fun populateFiles :: "string list \<Rightarrow> AssetFile list" where
  "populateFiles [] = []"
| "populateFiles (filename # filenames) =
     \<lparr> fileName = filename, fileMetadata = None \<rparr> # populateFiles filenames"

definition toRawExtension :: "RawMessage option \<Rightarrow> RawExtension option" where
  "toRawExtension message = (case message of None \<Rightarrow> None | Some m \<Rightarrow> Some (RawExtension m))"

text \<open>The first loop of \<open>mergeMetadata\<close>: a later entry of a name replaces an earlier one.\<close>

fun metadataMap :: "File list \<Rightarrow> (string \<rightharpoonup> RawMessage option) \<Rightarrow> (string \<rightharpoonup> RawMessage option)" where
  "metadataMap [] m = m"
| "metadataMap (metadata # metadatas) m =
     metadataMap metadatas (m(metaName metadata \<mapsto> metaMetadata metadata))"

text \<open>The second loop; a key that is absent reads as nil.\<close>

fun mergeFiles :: "(string \<rightharpoonup> RawMessage option) \<Rightarrow> AssetFile list \<Rightarrow> AssetFile list" where
  "mergeFiles m [] = []"
| "mergeFiles m (file # files) =
     \<lparr> fileName = fileName file,
       fileMetadata = toRawExtension (case m (fileName file) of None \<Rightarrow> None | Some p \<Rightarrow> p) \<rparr>
     # mergeFiles m files"

definition mergeMetadata :: "AssetFile list \<Rightarrow> File list \<Rightarrow> AssetFile list" where
  "mergeMetadata files metadatas = mergeFiles (metadataMap metadatas Map.empty) files"

subsection \<open>Remote cleanup and the delete path\<close>

definition deleteRemoteContent ::
  "assetHandler \<Rightarrow> MetaAccessor \<Rightarrow> string \<Rightarrow> error option \<times> call list"
where
  "deleteRemoteContent h object bucketName =
     (let prefix = GetName object;
          (files, err) = ListObjects h bucketName prefix;
          t1 = [CallListObjects bucketName prefix]
      in case err of
           Some e \<Rightarrow> (Some (Wrap e ''while listing files in bucket''), t1)
         | None \<Rightarrow>
             if length files = 0 then (None, t1)
             else
               (case DeleteObjects h bucketName prefix of
                  Some e \<Rightarrow>
                    (Some (Wrap e ''while deleting asset content''),
                     t1 @ [CallDeleteObjects bucketName prefix])
                | None \<Rightarrow>
                    (None,
                     t1 @ [CallDeleteObjects bucketName prefix,
                           recordNormalEventf AssetCleaned []])))"

definition onDelete ::
  "assetHandler \<Rightarrow> MetaAccessor \<Rightarrow> CommonAssetSpec \<Rightarrow> outcome \<times> call list"
where
  "onDelete h object spec =
     (let (bucketStatus, isReady, err) =
            findBucketStatus h (GetNamespace object) (BucketRefName spec);
          t1 = [CallFindBucketStatus (GetNamespace object) (BucketRefName spec)]
      in case err of
           Some e \<Rightarrow> (Return None (Some (Wrap e ''while reading bucket status'')), t1)
         | None \<Rightarrow>
             if \<not> isReady then (Return None None, t1)
             else
               (case bucketStatus of
                  None \<Rightarrow> (Panic, t1)
                | Some bs \<Rightarrow>
                    (case deleteRemoteContent h object (RemoteName bs) of
                       (Some e, t2) \<Rightarrow> (Return None (Some e), t1 @ t2)
                     | (None, t2) \<Rightarrow> (Return None None, t1 @ t2))))"

subsection \<open>Ready re-verification\<close>

definition onReady ::
  "assetHandler \<Rightarrow> MetaAccessor \<Rightarrow> CommonAssetSpec \<Rightarrow> CommonAssetStatus \<Rightarrow> outcome \<times> call list"
where
  "onReady h object spec status =
     (let (bucketStatus, isReady, err) =
            findBucketStatus h (GetNamespace object) (BucketRefName spec);
          t1 = [CallFindBucketStatus (GetNamespace object) (BucketRefName spec)]
      in case err of
           Some e \<Rightarrow>
             (Return (Some (getStatus h object AssetFailed AssetBucketError [errorString e]))
                     (Some e),
              t1 @ [recordWarningEventf AssetBucketError [errorString e]])
         | None \<Rightarrow>
             if \<not> isReady then
               (Return (Some (getStatus h object AssetPending AssetBucketNotReady [])) None,
                t1 @ [recordWarningEventf AssetBucketNotReady []])
             else
               (case bucketStatus of
                  None \<Rightarrow> (Panic, t1)
                | Some bs \<Rightarrow>
                    (let names = extractNames (Files (AssetRef status));
                         (exists, err) =
                            ContainsAllObjects h (RemoteName bs) (GetName object) names;
                         t2 = t1 @ [CallContainsAllObjects (RemoteName bs) (GetName object) names]
                     in case err of
                          Some e \<Rightarrow>
                            (Return (Some (getStatus h object AssetFailed
                                             AssetRemoteContentVerificationError [errorString e]))
                                    (Some e),
                             t2 @ [recordWarningEventf AssetRemoteContentVerificationError
                                     [errorString e]])
                        | None \<Rightarrow>
                            if \<not> exists then
                              (Return (Some (getStatus h object AssetFailed AssetMissingContent []))
                                      err,
                               t2 @ [recordWarningEventf AssetMissingContent []])
                            else
                              (Return (Some (getReadyStatus h object
                                               (BaseURL (AssetRef status))
                                               (Files (AssetRef status)) AssetUploaded []))
                                      None,
                               t2))))"

subsection \<open>The pending pipeline\<close>

text \<open>
  The body of \<open>onPending\<close> below its \<open>defer\<close> statement: everything that runs between
  the return of \<open>Loader.Load\<close> and the deferred \<open>Loader.Clean\<close>.
\<close>

definition onPendingLoaded ::
  "assetHandler \<Rightarrow> MetaAccessor \<Rightarrow> CommonAssetSpec \<Rightarrow> CommonBucketStatus
     \<Rightarrow> string \<Rightarrow> string list \<Rightarrow> error option \<Rightarrow> outcome \<times> call list"
where
  "onPendingLoaded h object spec bs basePath filenames err =
     (case err of
        Some e \<Rightarrow>
          (Return (Some (getStatus h object AssetFailed AssetPullingFailed [errorString e]))
                  (Some e),
           [recordWarningEventf AssetPullingFailed [errorString e]])
      | None \<Rightarrow>
         (let t1 = [recordNormalEventf AssetPulled []];
              mutation =
                (if length (MutationWebhookService (Source spec)) > 0 then
                   (case Mutate h basePath filenames (MutationWebhookService (Source spec)) of
                      (result, Some e) \<Rightarrow>
                        (Some (Return (Some (getStatus h object AssetFailed AssetMutationError
                                               [errorString e]))
                                      (Some e)),
                         [CallMutate basePath filenames (MutationWebhookService (Source spec)),
                          recordWarningEventf AssetMutationFailed [errorString e]])
                    | (result, None) \<Rightarrow>
                        if \<not> Success result then
                          (Some (Return (Some (getStatus h object AssetFailed AssetMutationFailed
                                                 [Messages result]))
                                        None),
                           [CallMutate basePath filenames (MutationWebhookService (Source spec)),
                            recordWarningEventf AssetMutationFailed [Messages result]])
                        else
                          (None,
                           [CallMutate basePath filenames (MutationWebhookService (Source spec)),
                            recordNormalEventf AssetMutated []]))
                 else (None, []))
          in case mutation of
               (Some r, t2) \<Rightarrow> (r, t1 @ t2)
             | (None, t2) \<Rightarrow>
         (let validation =
                (if length (ValidationWebhookService (Source spec)) > 0 then
                   (case Validate h basePath filenames (ValidationWebhookService (Source spec)) of
                      (result, Some e) \<Rightarrow>
                        (Some (Return (Some (getStatus h object AssetFailed AssetValidationError
                                               [errorString e]))
                                      (Some e)),
                         [CallValidate basePath filenames (ValidationWebhookService (Source spec)),
                          recordWarningEventf AssetValidationError [errorString e]])
                    | (result, None) \<Rightarrow>
                        if \<not> Success result then
                          (Some (Return (Some (getStatus h object AssetFailed AssetValidationFailed
                                                 [Messages result]))
                                        None),
                           [CallValidate basePath filenames (ValidationWebhookService (Source spec)),
                            recordWarningEventf AssetValidationFailed [Messages result]])
                        else
                          (None,
                           [CallValidate basePath filenames (ValidationWebhookService (Source spec)),
                            recordNormalEventf AssetValidated []]))
                 else (None, []))
          in case validation of
               (Some r, t3) \<Rightarrow> (r, t1 @ t2 @ t3)
             | (None, t3) \<Rightarrow>
         (let files0 = populateFiles filenames;
              metadata =
                (if length (MetadataWebhookService (Source spec)) > 0 then
                   (case Extract h basePath filenames (MetadataWebhookService (Source spec)) of
                      (result, Some e) \<Rightarrow>
                        (Inl (Return (Some (getStatus h object AssetFailed
                                              AssetMetadataExtractionFailed [errorString e]))
                                     (Some e)),
                         [CallExtract basePath filenames (MetadataWebhookService (Source spec)),
                          recordWarningEventf AssetMetadataExtractionFailed [errorString e]])
                    | (result, None) \<Rightarrow>
                        (Inr (mergeMetadata files0 result),
                         [CallExtract basePath filenames (MetadataWebhookService (Source spec)),
                          recordNormalEventf AssetMetadataExtracted []]))
                 else (Inr files0, []))
          in case metadata of
               (Inl r, t4) \<Rightarrow> (r, t1 @ t2 @ t3 @ t4)
             | (Inr files, t4) \<Rightarrow>
                 (let t5 = t1 @ t2 @ t3 @ t4
                         @ [CallPutObjects (RemoteName bs) (GetName object) basePath filenames]
                  in case PutObjects h (RemoteName bs) (GetName object) basePath filenames of
                       Some e \<Rightarrow>
                         (Return (Some (getStatus h object AssetFailed AssetUploadFailed
                                          [errorString e]))
                                 (Some e),
                          t5 @ [recordWarningEventf AssetUploadFailed [errorString e]])
                     | None \<Rightarrow>
                         (Return (Some (getReadyStatus h object
                                          (getBaseUrl (BucketURL bs) (GetName object))
                                          files AssetUploaded []))
                                 None,
                          t5 @ [recordNormalEventf AssetUploaded []]))))))"

text \<open>
  \<open>onPending\<close>: bucket probe, remote cleanup, \<open>Loader.Load\<close>, then the body above, then
  the deferred \<open>Loader.Clean(basePath)\<close>, whose argument is the path \<open>Load\<close> returned.
\<close>

definition onPending ::
  "assetHandler \<Rightarrow> MetaAccessor \<Rightarrow> CommonAssetSpec \<Rightarrow> CommonAssetStatus \<Rightarrow> outcome \<times> call list"
where
  "onPending h object spec status =
     (let (bucketStatus, isReady, err) =
            findBucketStatus h (GetNamespace object) (BucketRefName spec);
          t1 = [CallFindBucketStatus (GetNamespace object) (BucketRefName spec)]
      in case err of
           Some e \<Rightarrow>
             (Return (Some (getStatus h object AssetFailed AssetBucketError [errorString e]))
                     (Some e),
              t1 @ [recordWarningEventf AssetBucketError [errorString e]])
         | None \<Rightarrow>
             if \<not> isReady then
               (Return (Some (getStatus h object AssetPending AssetBucketNotReady [])) None,
                t1 @ [recordWarningEventf AssetBucketNotReady []])
             else
               (case bucketStatus of
                  None \<Rightarrow> (Panic, t1)
                | Some bs \<Rightarrow>
                    (case deleteRemoteContent h object (RemoteName bs) of
                       (Some e, t2) \<Rightarrow>
                         (Return (Some (getStatus h object AssetFailed AssetCleanupError
                                          [errorString e]))
                                 (Some e),
                          t1 @ t2 @ [recordWarningEventf AssetCleanupError [errorString e]])
                     | (None, t2) \<Rightarrow>
                         (let (basePath, filenames, err) =
                                Load h (URL (Source spec)) (GetName object)
                                       (Mode (Source spec)) (Filter (Source spec));
                              t3 = [CallLoad (URL (Source spec)) (GetName object)
                                             (Mode (Source spec)) (Filter (Source spec))];
                              (r, t4) = onPendingLoaded h object spec bs basePath filenames err
                          in (r, t1 @ t2 @ t3 @ t4 @ [CallClean basePath])))))"

subsection \<open>The dispatch\<close>

definition Do ::
  "assetHandler \<Rightarrow> Time \<Rightarrow> MetaAccessor \<Rightarrow> CommonAssetSpec \<Rightarrow> CommonAssetStatus
     \<Rightarrow> outcome \<times> call list"
where
  "Do h now instance spec status =
     (if isOnDelete instance then onDelete h instance spec
      else if isOnAddOrUpdate instance status then
        (Return (Some (getStatus h instance AssetPending AssetScheduled [])) None, [])
      else if isOnReady h status now then onReady h instance spec status
      else if isOnPending h status now then onPending h instance spec status
      else if isOnFailed status then onPending h instance spec status
      else (Return None None, []))"

subsection \<open>Concrete scenarios\<close>

text \<open>
  The scenario of the handler's documentation: Asset \<open>a1\<close> of namespace \<open>default\<close>,
  bucket \<open>b1\<close> ready under the remote name \<open>r1\<close>, a loader that yields two files.
\<close>

text \<open>A wall-clock reading on a full second.\<close>

definition atSecond :: "int \<Rightarrow> Time" where
  "atSecond s = \<lparr> sec = s, nsec = 0, monotonic = None \<rparr>"

definition bucket0 :: CommonBucketStatus where
  "bucket0 = \<lparr> RemoteName = ''r1'', BucketURL = ''http://cdn/r1'' \<rparr>"

definition handler0 :: assetHandler where
  "handler0 =
     \<lparr> findBucketStatus = (\<lambda>ns name. (Some bucket0, True, None)),
       ListObjects = (\<lambda>bucket prefix. ([''a1/old.md''], None)),
       DeleteObjects = (\<lambda>bucket prefix. None),
       ContainsAllObjects = (\<lambda>bucket prefix names. (True, None)),
       PutObjects = (\<lambda>bucket prefix basePath filenames. None),
       Load = (\<lambda>url name mode filter. (''/tmp/w'', [''a.md'', ''b.md''], None)),
       Mutate = (\<lambda>basePath filenames services. (\<lparr> Success = True, Messages = [] \<rparr>, None)),
       Validate = (\<lambda>basePath filenames services. (\<lparr> Success = True, Messages = [] \<rparr>, None)),
       Extract = (\<lambda>basePath filenames services. ([], None)),
       relistInterval = 100000000000,
       v1Now = atSecond 1000,
       reasonMessagef = (\<lambda>reason args. concat args) \<rparr>"

definition instance0 :: MetaAccessor where
  "instance0 =
     \<lparr> GetNamespace = ''default'', GetName = ''a1'', GetGeneration = 1,
       GetDeletionTimestamp = None \<rparr>"

definition source0 :: AssetSource where
  "source0 =
     \<lparr> URL = ''http://x/a.zip'', Mode = AssetPackage, Filter = [],
       MutationWebhookService = [], ValidationWebhookService = [],
       MetadataWebhookService = [] \<rparr>"

definition spec0 :: CommonAssetSpec where
  "spec0 = \<lparr> BucketRefName = ''b1'', Source = source0 \<rparr>"

definition statusEmpty :: CommonAssetStatus where
  "statusEmpty =
     \<lparr> Phase = AssetPhaseUnset, Reason = AssetReasonUnset, Message = [],
       LastHeartbeatTime = atSecond 0, ObservedGeneration = 0,
       AssetRef = \<lparr> BaseURL = [], Files = [] \<rparr> \<rparr>"

definition statusScheduled :: CommonAssetStatus where
  "statusScheduled = getStatus handler0 instance0 AssetPending AssetScheduled []"


definition sourceHooks :: AssetSource where
  "sourceHooks =
     \<lparr> URL = ''http://x/a.zip'', Mode = AssetPackage, Filter = [],
       MutationWebhookService = [''http://m''], ValidationWebhookService = [''http://v''],
       MetadataWebhookService = [''http://e''] \<rparr>"

definition specHooks :: CommonAssetSpec where
  "specHooks = \<lparr> BucketRefName = ''b1'', Source = sourceHooks \<rparr>"

definition statusSticky :: CommonAssetStatus where
  "statusSticky =
     \<lparr> Phase = AssetFailed, Reason = AssetValidationFailed, Message = ''bad'',
       LastHeartbeatTime = atSecond 1000, ObservedGeneration = 1,
       AssetRef = \<lparr> BaseURL = [], Files = [] \<rparr> \<rparr>"

definition instance2 :: MetaAccessor where
  "instance2 = instance0 \<lparr> GetGeneration := 2 \<rparr>"

definition statusBucketNotReady :: CommonAssetStatus where
  "statusBucketNotReady =
     \<lparr> Phase = AssetPending, Reason = AssetBucketNotReady, Message = [],
       LastHeartbeatTime = atSecond 1000, ObservedGeneration = 1,
       AssetRef = \<lparr> BaseURL = [], Files = [] \<rparr> \<rparr>"

definition failedResult :: Result where
  "failedResult = \<lparr> Success = False, Messages = ''bad'' \<rparr>"

definition emptyResult :: Result where
  "emptyResult = \<lparr> Success = False, Messages = [] \<rparr>"

definition handlerMutateError :: assetHandler where
  "handlerMutateError =
     handler0 \<lparr> Mutate := (\<lambda>basePath filenames services. (emptyResult, Some (Error ''timeout''))) \<rparr>"

definition handlerMutateRejects :: assetHandler where
  "handlerMutateRejects =
     handler0 \<lparr> Mutate := (\<lambda>basePath filenames services. (failedResult, None)) \<rparr>"

definition handlerValidateError :: assetHandler where
  "handlerValidateError =
     handler0 \<lparr> Validate := (\<lambda>basePath filenames services. (emptyResult, Some (Error ''timeout''))) \<rparr>"

definition handlerValidateRejects :: assetHandler where
  "handlerValidateRejects =
     handler0 \<lparr> Validate := (\<lambda>basePath filenames services. (failedResult, None)) \<rparr>"

definition statusReady :: CommonAssetStatus where
  "statusReady =
     \<lparr> Phase = AssetReady, Reason = AssetUploaded, Message = [],
       LastHeartbeatTime = atSecond 1000, ObservedGeneration = 1,
       AssetRef = \<lparr> BaseURL = ''http://cdn/r1/a1'',
                    Files = [\<lparr> fileName = ''a.md'', fileMetadata = None \<rparr>,
                             \<lparr> fileName = ''b.md'', fileMetadata = Some (RawExtension ''{}'') \<rparr>] \<rparr> \<rparr>"

definition handlerLater :: assetHandler where
  "handlerLater = handler0 \<lparr> v1Now := atSecond 1200 \<rparr>"

definition handlerMissing :: assetHandler where
  "handlerMissing =
     handlerLater \<lparr> ContainsAllObjects := (\<lambda>bucket prefix names. (False, None)) \<rparr>"

definition handlerStoreError :: assetHandler where
  "handlerStoreError =
     handlerLater \<lparr> ContainsAllObjects := (\<lambda>bucket prefix names. (False, Some (Error ''io''))) \<rparr>"

definition handlerBucketError :: assetHandler where
  "handlerBucketError =
     handlerLater \<lparr> findBucketStatus := (\<lambda>ns name. (None, False, Some (Error ''api''))) \<rparr>"

definition instanceDeleted :: MetaAccessor where
  "instanceDeleted = instance0 \<lparr> GetDeletionTimestamp := Some (atSecond 900) \<rparr>"

text \<open>
  A heartbeat in the last second that \<open>time.Time\<close> can hold, and a handler with an
  interval of 100 nanoseconds.
\<close>

definition lastInstant :: Time where
  "lastInstant = \<lparr> sec = 2 ^ 63 - 1, nsec = 999999950, monotonic = None \<rparr>"

definition statusLastInstant :: CommonAssetStatus where
  "statusLastInstant = statusBucketNotReady \<lparr> LastHeartbeatTime := lastInstant \<rparr>"

definition handlerShortInterval :: assetHandler where
  "handlerShortInterval = handler0 \<lparr> relistInterval := 100 \<rparr>"

definition handlerDeleteFails :: assetHandler where
  "handlerDeleteFails =
     handler0 \<lparr> DeleteObjects := (\<lambda>bucket prefix. Some (Error ''denied'')) \<rparr>"

section \<open>Properties of the handler\<close>

subsection \<open>Time arithmetic\<close>

text \<open>
  As long as the seconds of the sum stay within what \<open>time.Time\<close> can hold, \<open>Add\<close> is
  addition on the wall-clock nanoseconds, and on wall-clock readings \<open>Before\<close> and
  \<open>After\<close> are \<open><\<close> and \<open>>\<close> on them.
\<close>

lemma quot_rem:
  "quot d 1000000000 * 1000000000 + rem d 1000000000 = d"
  "- 1000000000 < rem d 1000000000"
  "rem d 1000000000 < 1000000000"
proof -
  have pos: "0 \<le> x mod 1000000000" "x mod 1000000000 < 1000000000" for x :: int
    by simp_all
  show "quot d 1000000000 * 1000000000 + rem d 1000000000 = d"
  proof (cases "d < 0")
    case True
    have "(- d) div 1000000000 * 1000000000 + (- d) mod 1000000000 = - d"
      by (rule div_mult_mod_eq)
    then have "- ((- d) div 1000000000 * 1000000000) - (- d) mod 1000000000 = d"
      by linarith
    with True show ?thesis by (simp add: quot_def rem_def)
  next
    case False
    then show ?thesis by (simp add: quot_def rem_def)
  qed
  have low: "- 1000000000 < x mod 1000000000" for x :: int
    using pos(1) [of x] by linarith
  show "- 1000000000 < rem d 1000000000"
    using pos(2) [of "- d"] low [of d] by (simp add: rem_def)
  show "rem d 1000000000 < 1000000000"
  proof (cases "d < 0")
    case True
    have "- ((- d) mod 1000000000) \<le> 0"
      by simp
    then have "- ((- d) mod 1000000000) < 1000000000"
      by linarith
    with True show ?thesis by (simp add: rem_def)
  next
    case False
    then show ?thesis by (simp add: rem_def)
  qed
qed

lemma wrap64_id:
  assumes "- (2 ^ 63) \<le> x" and "x < 2 ^ 63"
  shows "wrap64 x = x"
proof -
  have "(x + 2 ^ 63) mod 2 ^ 64 = x + 2 ^ 63"
    using assms by (intro mod_pos_pos_trivial) simp_all
  then show ?thesis by (simp add: wrap64_def)
qed

lemma addSec_exact:
  fixes t :: Time
  assumes "- (2 ^ 63 - 1) \<le> sec t + d" and "sec t + d \<le> 2 ^ 63 - 1"
  shows "sec (addSec t d) = sec t + d" and "nsec (addSec t d) = nsec t"
    and "monotonic t = None \<Longrightarrow> monotonic (addSec t d) = None"
proof -
  have w: "wrap64 (sec t + d) = sec t + d"
    using assms by (intro wrap64_id) simp_all
  show "sec (addSec t d) = sec t + d"
    by (auto simp: addSec_def stripMono_def Let_def w)
  show "nsec (addSec t d) = nsec t"
    by (auto simp: addSec_def stripMono_def Let_def w)
  show "monotonic t = None \<Longrightarrow> monotonic (addSec t d) = None"
    by (auto simp: addSec_def stripMono_def Let_def w)
qed

lemma Add_exact:
  fixes t :: Time
  assumes "0 \<le> nsec t" and "nsec t < 1000000000"
    and "- (2 ^ 63 - 1) \<le> (nanos t + d) div 1000000000"
    and "(nanos t + d) div 1000000000 \<le> 2 ^ 63 - 1"
  shows "nanos (Add t d) = nanos t + d"
    and "0 \<le> nsec (Add t d)" and "nsec (Add t d) < 1000000000"
    and "monotonic t = None \<Longrightarrow> monotonic (Add t d) = None"
proof -
  define q where "q = quot d 1000000000"
  define r where "r = rem d 1000000000"
  define ns where "ns = nsec t + r"
  define dsec where "dsec = (if ns \<ge> 1000000000 then q + 1 else if ns < 0 then q - 1 else q)"
  define ns' where "ns' = (if ns \<ge> 1000000000 then ns - 1000000000
                           else if ns < 0 then ns + 1000000000 else ns)"
  have d: "q * 1000000000 + r = d" and r: "- 1000000000 < r" "r < 1000000000"
    unfolding q_def r_def by (rule quot_rem)+
  have ns': "0 \<le> ns'" "ns' < 1000000000"
    using assms(1,2) r by (auto simp: ns'_def ns_def)
  have total: "(sec t + dsec) * 1000000000 + ns' = nanos t + d"
    using d by (auto simp: nanos_def dsec_def ns'_def ns_def algebra_simps)
  have "(nanos t + d) div 1000000000 = sec t + dsec"
  proof (rule int_div_pos_eq)
    show "nanos t + d = 1000000000 * (sec t + dsec) + ns'"
      using total by simp
  qed (use ns' in simp_all)
  with assms(3,4) have range: "- (2 ^ 63 - 1) \<le> sec t + dsec" "sec t + dsec \<le> 2 ^ 63 - 1"
    by simp_all
  define t1 where "t1 = addSec (t \<lparr> nsec := ns' \<rparr>) dsec"
  have t1: "sec t1 = sec t + dsec" "nsec t1 = ns'" "monotonic t = None \<Longrightarrow> monotonic t1 = None"
    using addSec_exact [of "t \<lparr> nsec := ns' \<rparr>" dsec] range by (simp_all add: t1_def)
  have unfold: "Add t d =
      (case monotonic t1 of
           None \<Rightarrow> t1
         | Some m \<Rightarrow>
             (let te = wrap64 (m + d)
              in if (d < 0 \<and> te > m) \<or> (d > 0 \<and> te < m) then stripMono t1
                 else t1 \<lparr> monotonic := Some te \<rparr>))"
    unfolding Add_def t1_def dsec_def ns'_def ns_def q_def r_def Let_def
    by auto
  have fields: "sec (Add t d) = sec t1" "nsec (Add t d) = nsec t1"
    unfolding unfold by (simp_all add: stripMono_def Let_def split: option.splits)
  show "nanos (Add t d) = nanos t + d"
    using total by (simp add: nanos_def fields t1)
  show "0 \<le> nsec (Add t d)" "nsec (Add t d) < 1000000000"
    using ns' by (simp_all add: fields t1)
  show "monotonic t = None \<Longrightarrow> monotonic (Add t d) = None"
    unfolding unfold using t1(3) by simp
qed

lemma Before_wall:
  fixes a b :: Time
  assumes "monotonic a = None \<or> monotonic b = None"
    and "0 \<le> nsec a" "nsec a < 1000000000" "0 \<le> nsec b" "nsec b < 1000000000"
  shows "Before a b \<longleftrightarrow> nanos a < nanos b"
proof -
  have "Before a b \<longleftrightarrow> sec a < sec b \<or> (sec a = sec b \<and> nsec a < nsec b)"
    using assms(1) by (auto simp: Before_def split: option.splits)
  also have "\<dots> \<longleftrightarrow> nanos a < nanos b"
    using assms(2-5) unfolding nanos_def by (cases "sec a < sec b"; cases "sec a = sec b") auto
  finally show ?thesis .
qed

lemma Before_Add_nanos:
  fixes now t :: Time
  assumes "monotonic now = None \<or> monotonic t = None"
    and "0 \<le> nsec now" "nsec now < 1000000000"
    and "0 \<le> nsec t" "nsec t < 1000000000"
    and "- (2 ^ 63 - 1) \<le> (nanos t + d) div 1000000000"
    and "(nanos t + d) div 1000000000 \<le> 2 ^ 63 - 1"
  shows "Before now (Add t d) \<longleftrightarrow> nanos now < nanos t + d"
proof -
  note add = Add_exact [OF assms(4-7)]
  have "monotonic now = None \<or> monotonic (Add t d) = None"
    using assms(1) add(4) by auto
  then have "Before now (Add t d) \<longleftrightarrow> nanos now < nanos (Add t d)"
    using assms(2,3) add(2,3) by (rule Before_wall)
  then show ?thesis by (simp add: add(1))
qed

lemma After_wall:
  fixes a b :: Time
  assumes "monotonic a = None \<or> monotonic b = None"
    and "0 \<le> nsec a" "nsec a < 1000000000" "0 \<le> nsec b" "nsec b < 1000000000"
  shows "After a b \<longleftrightarrow> nanos a > nanos b"
proof -
  have "After a b \<longleftrightarrow> sec a > sec b \<or> (sec a = sec b \<and> nsec a > nsec b)"
    using assms(1) by (auto simp: After_def split: option.splits)
  also have "\<dots> \<longleftrightarrow> nanos a > nanos b"
    using assms(2-5) unfolding nanos_def by (cases "sec a > sec b"; cases "sec a = sec b") auto
  finally show ?thesis .
qed

lemma After_Add_nanos:
  fixes now t :: Time
  assumes "monotonic now = None \<or> monotonic t = None"
    and "0 \<le> nsec now" "nsec now < 1000000000"
    and "0 \<le> nsec t" "nsec t < 1000000000"
    and "- (2 ^ 63 - 1) \<le> (nanos t + d) div 1000000000"
    and "(nanos t + d) div 1000000000 \<le> 2 ^ 63 - 1"
  shows "After now (Add t d) \<longleftrightarrow> nanos now > nanos t + d"
proof -
  note add = Add_exact [OF assms(4-7)]
  have "monotonic now = None \<or> monotonic (Add t d) = None"
    using assms(1) add(4) by auto
  then have "After now (Add t d) \<longleftrightarrow> nanos now > nanos (Add t d)"
    using assms(2,3) add(2,3) by (rule After_wall)
  then show ?thesis by (simp add: add(1))
qed

lemmas time_defs =
  Add_def addSec_def stripMono_def wrap64_def quot_def rem_def Before_def After_def IsZero_def
  nanos_def atSecond_def Let_def

subsection \<open>Which branch a call takes\<close>

lemma Do_dispatch_pending:
  assumes "GetDeletionTimestamp instance = None"
    and "ObservedGeneration status = GetGeneration instance"
    and "\<not> isOnReady h status now"
    and "isOnPending h status now \<or> isOnFailed status"
  shows "Do h now instance spec status = onPending h instance spec status"
  using assms by (auto simp: Do_def isOnDelete_def isOnAddOrUpdate_def)

lemma Do_dispatch_ready:
  assumes "GetDeletionTimestamp instance = None"
    and "ObservedGeneration status = GetGeneration instance"
    and "isOnReady h status now"
  shows "Do h now instance spec status = onReady h instance spec status"
  using assms by (simp add: Do_def isOnDelete_def isOnAddOrUpdate_def)

subsection \<open>A new generation is scheduled\<close>

text \<open>
  Claim C3. When the deletion timestamp is unset and the observed generation of the
  status differs from the generation of the instance, \<open>Do\<close> returns a status with phase
  Pending, reason Scheduled and the instance's generation as observed generation,
  together with a nil error, and the trace is empty: no collaborator is called and no
  event is recorded.
\<close>

theorem C3_scheduled:
  assumes "GetDeletionTimestamp instance = None"
    and "ObservedGeneration status \<noteq> GetGeneration instance"
  shows "\<exists>st. Do h now instance spec status = (Return (Some st) None, [])
           \<and> Phase st = AssetPending \<and> Reason st = AssetScheduled
           \<and> ObservedGeneration st = GetGeneration instance"
  using assms by (simp add: Do_def isOnDelete_def isOnAddOrUpdate_def getStatus_def)

theorem C3_scheduled_witness:
  "\<exists>st. Do handler0 (atSecond 1000) instance0 spec0 statusEmpty = (Return (Some st) None, [])
           \<and> Phase st = AssetPending \<and> Reason st = AssetScheduled
           \<and> ObservedGeneration st = GetGeneration instance0"
  using C3_scheduled [of instance0 statusEmpty handler0 "atSecond 1000" spec0]
  by (simp add: instance0_def statusEmpty_def)

subsection \<open>Sticky failures\<close>

text \<open>
  Claim C2. For a status with phase Failed and reason ValidationFailed or MutationFailed
  and an instance whose deletion timestamp is unset: as long as the observed generation
  equals the instance's generation, every call of \<open>Do\<close> (any handler, any time, any spec)
  returns no status and no error, with an empty trace; since nothing is returned the
  status stays as it is, and so does the answer of the next call. Once the generation
  differs, \<open>Do\<close> returns Pending/Scheduled.
\<close>

theorem C2_sticky_failure:
  assumes "GetDeletionTimestamp instance = None"
    and "Phase status = AssetFailed"
    and "Reason status = AssetValidationFailed \<or> Reason status = AssetMutationFailed"
  shows "(ObservedGeneration status = GetGeneration instance
            \<longrightarrow> Do h now instance spec status = (Return None None, []))
       \<and> (ObservedGeneration status \<noteq> GetGeneration instance
            \<longrightarrow> (\<exists>st. Do h now instance spec status = (Return (Some st) None, [])
                   \<and> Phase st = AssetPending \<and> Reason st = AssetScheduled))"
  using assms
  by (auto simp: Do_def isOnDelete_def isOnAddOrUpdate_def isOnReady_def isOnPending_def
      isOnFailed_def getStatus_def)

theorem C2_sticky_failure_witness:
  "Do handler0 (atSecond 5000) instance0 specHooks statusSticky = (Return None None, [])
   \<and> (\<exists>st. Do handler0 (atSecond 5000) instance2 specHooks statusSticky = (Return (Some st) None, [])
          \<and> Phase st = AssetPending \<and> Reason st = AssetScheduled)"
  using C2_sticky_failure [of instance0 statusSticky handler0 "atSecond 5000" specHooks]
    C2_sticky_failure [of instance2 statusSticky handler0 "atSecond 5000" specHooks]
  by (simp add: instance0_def instance2_def statusSticky_def)

subsection \<open>Facts shared by the pipeline properties\<close>

lemmas scenario_defs =
  bucket0_def handler0_def instance0_def source0_def spec0_def sourceHooks_def specHooks_def
  statusEmpty_def statusScheduled_def statusSticky_def instance2_def statusBucketNotReady_def
  lastInstant_def statusLastInstant_def handlerShortInterval_def
  failedResult_def emptyResult_def handlerMutateError_def handlerMutateRejects_def
  handlerValidateError_def handlerValidateRejects_def

lemma populateFiles_names: "map fileName (populateFiles filenames) = filenames"
  by (induction filenames) simp_all

lemma mergeFiles_names: "map fileName (mergeFiles m files) = map fileName files"
  by (induction files) simp_all

lemma mergeMetadata_names: "map fileName (mergeMetadata files metadatas) = map fileName files"
  by (simp add: mergeMetadata_def mergeFiles_names)

lemma deleteRemoteContent_ok:
  assumes "ListObjects h bucketName (GetName object) = (objs, None)"
    and "objs \<noteq> [] \<longrightarrow> DeleteObjects h bucketName (GetName object) = None"
  shows "fst (deleteRemoteContent h object bucketName) = None"
  using assms by (simp add: deleteRemoteContent_def Let_def)

lemma deleteRemoteContent_delete_fails:
  assumes "ListObjects h bucketName (GetName object) = (objs, None)"
    and "objs \<noteq> []"
    and "DeleteObjects h bucketName (GetName object) = Some e"
  shows "deleteRemoteContent h object bucketName
           = (Some (Wrap e ''while deleting asset content''),
              [CallListObjects bucketName (GetName object),
               CallDeleteObjects bucketName (GetName object)])"
  using assms by (simp add: deleteRemoteContent_def Let_def)

lemma onPending_after_load:
  assumes "findBucketStatus h (GetNamespace object) (BucketRefName spec) = (Some bs, True, None)"
    and "fst (deleteRemoteContent h object (RemoteName bs)) = None"
    and "Load h (URL (Source spec)) (GetName object) (Mode (Source spec)) (Filter (Source spec))
           = (basePath, filenames, err)"
  shows "fst (onPending h object spec status)
           = fst (onPendingLoaded h object spec bs basePath filenames err)"
  using assms
  by (cases "deleteRemoteContent h object (RemoteName bs)")
     (simp add: onPending_def Let_def split: prod.splits)

lemma onPending_starts_with_probe:
  "hd (snd (onPending h object spec status))
     = CallFindBucketStatus (GetNamespace object) (BucketRefName spec)"
  by (simp add: onPending_def Let_def split: prod.splits option.splits)

subsection \<open>Back-off on a bucket that is not ready\<close>

text \<open>
  Claim C5. For a status Pending/BucketNotReady (deletion timestamp unset, observed
  generation equal to the instance's): a call of \<open>Do\<close> at a time before
  \<open>lastHeartbeatTime + relistInterval\<close> returns no status and no error with an empty
  trace; a call at any other time is the pending pipeline, whose first call is the
  bucket probe. Before and the sum are \<open>Before\<close> and \<open>Add\<close> of Go's \<open>time\<close>; for
  wall-clock readings whose sum stays within the seconds that \<open>time.Time\<close> can hold
  they are \<open><\<close> and \<open>+\<close> on nanoseconds, and the claim holds in that form as well.
\<close>

theorem C5_bucket_backoff:
  assumes "GetDeletionTimestamp instance = None"
    and "ObservedGeneration status = GetGeneration instance"
    and "Phase status = AssetPending"
    and "Reason status = AssetBucketNotReady"
  shows "(Before now (Add (LastHeartbeatTime status) (relistInterval h))
            \<longrightarrow> Do h now instance spec status = (Return None None, []))
       \<and> (\<not> Before now (Add (LastHeartbeatTime status) (relistInterval h))
            \<longrightarrow> Do h now instance spec status = onPending h instance spec status
              \<and> hd (snd (Do h now instance spec status))
                  = CallFindBucketStatus (GetNamespace instance) (BucketRefName spec))
       \<and> ((monotonic now = None \<or> monotonic (LastHeartbeatTime status) = None)
            \<and> 0 \<le> nsec now \<and> nsec now < 1000000000
            \<and> 0 \<le> nsec (LastHeartbeatTime status)
            \<and> nsec (LastHeartbeatTime status) < 1000000000
            \<and> - (2 ^ 63 - 1)
                 \<le> (nanos (LastHeartbeatTime status) + relistInterval h) div 1000000000
            \<and> (nanos (LastHeartbeatTime status) + relistInterval h) div 1000000000
                 \<le> 2 ^ 63 - 1
            \<longrightarrow> (nanos now < nanos (LastHeartbeatTime status) + relistInterval h
                   \<longrightarrow> Do h now instance spec status = (Return None None, []))
              \<and> (nanos now \<ge> nanos (LastHeartbeatTime status) + relistInterval h
                   \<longrightarrow> Do h now instance spec status = onPending h instance spec status
                     \<and> hd (snd (Do h now instance spec status))
                         = CallFindBucketStatus (GetNamespace instance)
                             (BucketRefName spec)))"
proof -
  have early: "Do h now instance spec status = (Return None None, [])"
    if "Before now (Add (LastHeartbeatTime status) (relistInterval h))"
    using that assms
    by (simp add: Do_def isOnDelete_def isOnAddOrUpdate_def isOnReady_def isOnPending_def
        isOnFailed_def)
  have late: "Do h now instance spec status = onPending h instance spec status
              \<and> hd (snd (Do h now instance spec status))
                  = CallFindBucketStatus (GetNamespace instance) (BucketRefName spec)"
    if "\<not> Before now (Add (LastHeartbeatTime status) (relistInterval h))"
  proof -
    from that assms(3,4)
    have pend: "isOnPending h status now" and nready: "\<not> isOnReady h status now"
      by (simp_all add: isOnPending_def isOnReady_def)
    have run: "Do h now instance spec status = onPending h instance spec status"
      using Do_dispatch_pending [OF assms(1,2) nready] pend by simp
    show ?thesis
      unfolding run by (simp add: onPending_starts_with_probe)
  qed
  have wall: "Before now (Add (LastHeartbeatTime status) (relistInterval h))
                \<longleftrightarrow> nanos now < nanos (LastHeartbeatTime status) + relistInterval h"
    if "(monotonic now = None \<or> monotonic (LastHeartbeatTime status) = None)
            \<and> 0 \<le> nsec now \<and> nsec now < 1000000000
            \<and> 0 \<le> nsec (LastHeartbeatTime status)
            \<and> nsec (LastHeartbeatTime status) < 1000000000
            \<and> - (2 ^ 63 - 1)
                 \<le> (nanos (LastHeartbeatTime status) + relistInterval h) div 1000000000
            \<and> (nanos (LastHeartbeatTime status) + relistInterval h) div 1000000000
                 \<le> 2 ^ 63 - 1"
    using that by (intro Before_Add_nanos) simp_all
  have arith:
    "(nanos now < nanos (LastHeartbeatTime status) + relistInterval h
        \<longrightarrow> Do h now instance spec status = (Return None None, []))
     \<and> (nanos now \<ge> nanos (LastHeartbeatTime status) + relistInterval h
        \<longrightarrow> Do h now instance spec status = onPending h instance spec status
          \<and> hd (snd (Do h now instance spec status))
              = CallFindBucketStatus (GetNamespace instance) (BucketRefName spec))"
    if bounds: "(monotonic now = None \<or> monotonic (LastHeartbeatTime status) = None)
            \<and> 0 \<le> nsec now \<and> nsec now < 1000000000
            \<and> 0 \<le> nsec (LastHeartbeatTime status)
            \<and> nsec (LastHeartbeatTime status) < 1000000000
            \<and> - (2 ^ 63 - 1)
                 \<le> (nanos (LastHeartbeatTime status) + relistInterval h) div 1000000000
            \<and> (nanos (LastHeartbeatTime status) + relistInterval h) div 1000000000
                 \<le> 2 ^ 63 - 1"
  proof -
    have order: "nanos (LastHeartbeatTime status) + relistInterval h \<le> nanos now
                   \<longleftrightarrow> \<not> nanos now < nanos (LastHeartbeatTime status) + relistInterval h"
      by (simp add: not_less)
    from early late wall [OF bounds] order show ?thesis by blast
  qed
  from early late arith show ?thesis by blast
qed

theorem C5_bucket_backoff_witness:
  "Do handler0 (atSecond 1099) instance0 spec0 statusBucketNotReady = (Return None None, [])
   \<and> Do handler0 (atSecond 1100) instance0 spec0 statusBucketNotReady
       = onPending handler0 instance0 spec0 statusBucketNotReady
   \<and> hd (snd (Do handler0 (atSecond 1100) instance0 spec0 statusBucketNotReady))
       = CallFindBucketStatus (GetNamespace instance0) (BucketRefName spec0)
   \<and> Do handler0 (atSecond 1050) instance0 spec0 statusBucketNotReady = (Return None None, [])
   \<and> Do handler0 (atSecond 1200) instance0 spec0 statusBucketNotReady
       = onPending handler0 instance0 spec0 statusBucketNotReady
   \<and> Do handlerShortInterval lastInstant instance0 spec0 statusLastInstant
       = onPending handlerShortInterval instance0 spec0 statusLastInstant"
proof -
  have a: "GetDeletionTimestamp instance0 = None"
    and b: "ObservedGeneration statusBucketNotReady = GetGeneration instance0"
    and c: "Phase statusBucketNotReady = AssetPending"
    and d: "Reason statusBucketNotReady = AssetBucketNotReady"
    and b': "ObservedGeneration statusLastInstant = GetGeneration instance0"
    and c': "Phase statusLastInstant = AssetPending"
    and d': "Reason statusLastInstant = AssetBucketNotReady"
    by (simp_all add: scenario_defs)
  have deadline:
    "Add (LastHeartbeatTime statusBucketNotReady) (relistInterval handler0) = atSecond 1100"
    by (simp add: scenario_defs time_defs)
  have wrapped:
    "Add (LastHeartbeatTime statusLastInstant) (relistInterval handlerShortInterval)
       = \<lparr> sec = 2 ^ 63 - 1, nsec = 50, monotonic = None \<rparr>"
    by (simp add: scenario_defs time_defs)
  have before: "Before (atSecond 1099) (atSecond 1100)"
    and not_before: "\<not> Before (atSecond 1100) (atSecond 1100)"
    and not_before_last:
      "\<not> Before lastInstant \<lparr> sec = 2 ^ 63 - 1, nsec = 50, monotonic = None \<rparr>"
    by (simp_all add: Before_def atSecond_def lastInstant_def)
  have bounds:
    "monotonic (LastHeartbeatTime statusBucketNotReady) = None"
    "0 \<le> nsec (LastHeartbeatTime statusBucketNotReady)"
    "nsec (LastHeartbeatTime statusBucketNotReady) < 1000000000"
    "nanos (LastHeartbeatTime statusBucketNotReady) + relistInterval handler0
       = 1100000000000"
    "nanos (atSecond 1050) = 1050000000000" "nanos (atSecond 1200) = 1200000000000"
    "nsec (atSecond 1050) = 0" "nsec (atSecond 1200) = 0"
    by (simp_all add: scenario_defs nanos_def atSecond_def)
  from C5_bucket_backoff [OF a b c d, of "atSecond 1099" handler0 spec0] before
  have w1: "Do handler0 (atSecond 1099) instance0 spec0 statusBucketNotReady
              = (Return None None, [])"
    unfolding deadline by blast
  from C5_bucket_backoff [OF a b c d, of "atSecond 1100" handler0 spec0] not_before
  have w2: "Do handler0 (atSecond 1100) instance0 spec0 statusBucketNotReady
              = onPending handler0 instance0 spec0 statusBucketNotReady
            \<and> hd (snd (Do handler0 (atSecond 1100) instance0 spec0 statusBucketNotReady))
                = CallFindBucketStatus (GetNamespace instance0) (BucketRefName spec0)"
    unfolding deadline by blast
  from C5_bucket_backoff [OF a b c d, of "atSecond 1050" handler0 spec0]
  have w3: "Do handler0 (atSecond 1050) instance0 spec0 statusBucketNotReady
              = (Return None None, [])"
    by (simp add: bounds)
  from C5_bucket_backoff [OF a b c d, of "atSecond 1200" handler0 spec0]
  have w4: "Do handler0 (atSecond 1200) instance0 spec0 statusBucketNotReady
              = onPending handler0 instance0 spec0 statusBucketNotReady"
    by (simp add: bounds)
  from C5_bucket_backoff [OF a b' c' d', of lastInstant handlerShortInterval spec0]
    not_before_last
  have w5: "Do handlerShortInterval lastInstant instance0 spec0 statusLastInstant
              = onPending handlerShortInterval instance0 spec0 statusLastInstant"
    unfolding wrapped by blast
  from w1 w2 w3 w4 w5 show ?thesis by blast
qed

subsection \<open>The pending pipeline succeeds\<close>

lemma onPendingLoaded_success:
  assumes "MutationWebhookService (Source spec) \<noteq> [] \<longrightarrow>
             (\<exists>r. Mutate h basePath filenames (MutationWebhookService (Source spec)) = (r, None)
                  \<and> Success r)"
    and "ValidationWebhookService (Source spec) \<noteq> [] \<longrightarrow>
             (\<exists>r. Validate h basePath filenames (ValidationWebhookService (Source spec)) = (r, None)
                  \<and> Success r)"
    and "MetadataWebhookService (Source spec) \<noteq> [] \<longrightarrow>
             (\<exists>ms. Extract h basePath filenames (MetadataWebhookService (Source spec)) = (ms, None))"
    and "PutObjects h (RemoteName bs) (GetName object) basePath filenames = None"
  shows "\<exists>files. fst (onPendingLoaded h object spec bs basePath filenames None)
           = Return (Some (getReadyStatus h object (getBaseUrl (BucketURL bs) (GetName object))
                             files AssetUploaded [])) None
         \<and> map fileName files = filenames"
  using assms
  by (auto simp: onPendingLoaded_def Let_def populateFiles_names mergeMetadata_names)

text \<open>
  Claim C1. When the deletion timestamp is unset, the observed generation equals the
  instance's, the phase is Pending without back-off, and every stage succeeds (bucket
  probe ready, remote cleanup, \<open>Load\<close>, the configured webhooks, \<open>PutObjects\<close>), \<open>Do\<close>
  returns a nil error and a status Ready/Uploaded whose base URL is the bucket's URL,
  a slash and the Asset's name, and whose files carry the loader's filenames, one
  entry each, in the loader's order.
\<close>

theorem C1_pipeline_success:
  assumes "GetDeletionTimestamp instance = None"
    and "ObservedGeneration status = GetGeneration instance"
    and "Phase status = AssetPending"
    and "\<not> (Reason status = AssetBucketNotReady
            \<and> Before now (Add (LastHeartbeatTime status) (relistInterval h)))"
    and "findBucketStatus h (GetNamespace instance) (BucketRefName spec) = (Some bs, True, None)"
    and "ListObjects h (RemoteName bs) (GetName instance) = (objs, None)"
    and "objs \<noteq> [] \<longrightarrow> DeleteObjects h (RemoteName bs) (GetName instance) = None"
    and "Load h (URL (Source spec)) (GetName instance) (Mode (Source spec)) (Filter (Source spec))
           = (basePath, filenames, None)"
    and "MutationWebhookService (Source spec) \<noteq> [] \<longrightarrow>
             (\<exists>r. Mutate h basePath filenames (MutationWebhookService (Source spec)) = (r, None)
                  \<and> Success r)"
    and "ValidationWebhookService (Source spec) \<noteq> [] \<longrightarrow>
             (\<exists>r. Validate h basePath filenames (ValidationWebhookService (Source spec)) = (r, None)
                  \<and> Success r)"
    and "MetadataWebhookService (Source spec) \<noteq> [] \<longrightarrow>
             (\<exists>ms. Extract h basePath filenames (MetadataWebhookService (Source spec)) = (ms, None))"
    and "PutObjects h (RemoteName bs) (GetName instance) basePath filenames = None"
  shows "\<exists>st. fst (Do h now instance spec status) = Return (Some st) None
           \<and> Phase st = AssetReady \<and> Reason st = AssetUploaded
           \<and> BaseURL (AssetRef st) = BucketURL bs @ ''/'' @ GetName instance
           \<and> map fileName (Files (AssetRef st)) = filenames"
proof -
  have "isOnPending h status now" and "\<not> isOnReady h status now"
    using assms(3,4) by (auto simp: isOnPending_def isOnReady_def)
  then have run: "Do h now instance spec status = onPending h instance spec status"
    using Do_dispatch_pending [OF assms(1,2)] by simp
  have clean: "fst (deleteRemoteContent h instance (RemoteName bs)) = None"
    using assms(6,7) by (rule deleteRemoteContent_ok)
  have loaded: "fst (onPending h instance spec status)
                  = fst (onPendingLoaded h instance spec bs basePath filenames None)"
    using assms(5) clean assms(8) by (rule onPending_after_load)
  from onPendingLoaded_success [OF assms(9,10,11,12)]
  obtain files where
    res: "fst (onPendingLoaded h instance spec bs basePath filenames None)
            = Return (Some (getReadyStatus h instance
                              (getBaseUrl (BucketURL bs) (GetName instance))
                              files AssetUploaded [])) None"
    and names: "map fileName files = filenames"
    by blast
  show ?thesis
    unfolding run loaded res
    using names by (simp add: getReadyStatus_def getStatus_def getBaseUrl_def)
qed


theorem C1_pipeline_success_witness:
  "\<exists>st. fst (Do handler0 (atSecond 1000) instance0 specHooks statusScheduled) = Return (Some st) None
         \<and> Phase st = AssetReady \<and> Reason st = AssetUploaded
         \<and> BaseURL (AssetRef st) = ''http://cdn/r1/a1''
         \<and> map fileName (Files (AssetRef st)) = [''a.md'', ''b.md'']"
proof -
  have url: "BucketURL bucket0 @ ''/'' @ GetName instance0 = ''http://cdn/r1/a1''"
    by (simp add: bucket0_def instance0_def)
  have "\<exists>st. fst (Do handler0 (atSecond 1000) instance0 specHooks statusScheduled) = Return (Some st) None
         \<and> Phase st = AssetReady \<and> Reason st = AssetUploaded
         \<and> BaseURL (AssetRef st) = BucketURL bucket0 @ ''/'' @ GetName instance0
         \<and> map fileName (Files (AssetRef st)) = [''a.md'', ''b.md'']"
    by (rule C1_pipeline_success [where objs = "[''a1/old.md'']" and basePath = "''/tmp/w''"])
       (simp_all add: scenario_defs getStatus_def)
  then show ?thesis unfolding url .
qed

subsection \<open>Failures of the mutation and validation webhooks\<close>

lemma onPendingLoaded_mutate_error:
  assumes "MutationWebhookService (Source spec) \<noteq> []"
    and "Mutate h basePath filenames (MutationWebhookService (Source spec)) = (r, Some e)"
  shows "fst (onPendingLoaded h object spec bs basePath filenames None)
           = Return (Some (getStatus h object AssetFailed AssetMutationError [errorString e]))
                    (Some e)"
  using assms by (simp add: onPendingLoaded_def Let_def)

lemma onPendingLoaded_mutate_rejects:
  assumes "MutationWebhookService (Source spec) \<noteq> []"
    and "Mutate h basePath filenames (MutationWebhookService (Source spec)) = (r, None)"
    and "\<not> Success r"
  shows "fst (onPendingLoaded h object spec bs basePath filenames None)
           = Return (Some (getStatus h object AssetFailed AssetMutationFailed [Messages r])) None"
  using assms by (simp add: onPendingLoaded_def Let_def)

lemma onPendingLoaded_validate_error:
  assumes "MutationWebhookService (Source spec) = []
             \<or> (\<exists>m. Mutate h basePath filenames (MutationWebhookService (Source spec)) = (m, None)
                    \<and> Success m)"
    and "ValidationWebhookService (Source spec) \<noteq> []"
    and "Validate h basePath filenames (ValidationWebhookService (Source spec)) = (r, Some e)"
  shows "fst (onPendingLoaded h object spec bs basePath filenames None)
           = Return (Some (getStatus h object AssetFailed AssetValidationError [errorString e]))
                    (Some e)"
  using assms by (auto simp: onPendingLoaded_def Let_def)

lemma onPendingLoaded_validate_rejects:
  assumes "MutationWebhookService (Source spec) = []
             \<or> (\<exists>m. Mutate h basePath filenames (MutationWebhookService (Source spec)) = (m, None)
                    \<and> Success m)"
    and "ValidationWebhookService (Source spec) \<noteq> []"
    and "Validate h basePath filenames (ValidationWebhookService (Source spec)) = (r, None)"
    and "\<not> Success r"
  shows "fst (onPendingLoaded h object spec bs basePath filenames None)
           = Return (Some (getStatus h object AssetFailed AssetValidationFailed [Messages r])) None"
  using assms by (auto simp: onPendingLoaded_def Let_def)

text \<open>
  Claim C4. In the pending pipeline, once bucket probe, cleanup and load have succeeded:
  a transport error of the mutator gives Failed/MutationError with that error; a
  mutator result without success and without error gives Failed/MutationFailed with a
  nil error; and, when mutation is not configured or has succeeded, the validator gives
  Failed/ValidationError with the error, respectively Failed/ValidationFailed with a
  nil error.
\<close>

theorem C4_webhook_failures:
  assumes "GetDeletionTimestamp instance = None"
    and "ObservedGeneration status = GetGeneration instance"
    and "\<not> isOnReady h status now"
    and "isOnPending h status now \<or> isOnFailed status"
    and "findBucketStatus h (GetNamespace instance) (BucketRefName spec) = (Some bs, True, None)"
    and "ListObjects h (RemoteName bs) (GetName instance) = (objs, None)"
    and "objs \<noteq> [] \<longrightarrow> DeleteObjects h (RemoteName bs) (GetName instance) = None"
    and "Load h (URL (Source spec)) (GetName instance) (Mode (Source spec)) (Filter (Source spec))
           = (basePath, filenames, None)"
  shows "(MutationWebhookService (Source spec) \<noteq> []
            \<and> Mutate h basePath filenames (MutationWebhookService (Source spec)) = (r, Some e)
          \<longrightarrow> (\<exists>st. fst (Do h now instance spec status) = Return (Some st) (Some e)
                 \<and> Phase st = AssetFailed \<and> Reason st = AssetMutationError))
       \<and> (MutationWebhookService (Source spec) \<noteq> []
            \<and> Mutate h basePath filenames (MutationWebhookService (Source spec)) = (r, None)
            \<and> \<not> Success r
          \<longrightarrow> (\<exists>st. fst (Do h now instance spec status) = Return (Some st) None
                 \<and> Phase st = AssetFailed \<and> Reason st = AssetMutationFailed))
       \<and> ((MutationWebhookService (Source spec) = []
             \<or> (\<exists>m. Mutate h basePath filenames (MutationWebhookService (Source spec)) = (m, None)
                    \<and> Success m))
            \<and> ValidationWebhookService (Source spec) \<noteq> []
            \<and> Validate h basePath filenames (ValidationWebhookService (Source spec)) = (r, Some e)
          \<longrightarrow> (\<exists>st. fst (Do h now instance spec status) = Return (Some st) (Some e)
                 \<and> Phase st = AssetFailed \<and> Reason st = AssetValidationError))
       \<and> ((MutationWebhookService (Source spec) = []
             \<or> (\<exists>m. Mutate h basePath filenames (MutationWebhookService (Source spec)) = (m, None)
                    \<and> Success m))
            \<and> ValidationWebhookService (Source spec) \<noteq> []
            \<and> Validate h basePath filenames (ValidationWebhookService (Source spec)) = (r, None)
            \<and> \<not> Success r
          \<longrightarrow> (\<exists>st. fst (Do h now instance spec status) = Return (Some st) None
                 \<and> Phase st = AssetFailed \<and> Reason st = AssetValidationFailed))"
proof -
  have run: "Do h now instance spec status = onPending h instance spec status"
    using assms(1-4) by (rule Do_dispatch_pending)
  have clean: "fst (deleteRemoteContent h instance (RemoteName bs)) = None"
    using assms(6,7) by (rule deleteRemoteContent_ok)
  have loaded: "fst (onPending h instance spec status)
                  = fst (onPendingLoaded h instance spec bs basePath filenames None)"
    using assms(5) clean assms(8) by (rule onPending_after_load)
  show ?thesis
    unfolding run loaded
    by (intro conjI impI)
       (simp_all add: onPendingLoaded_mutate_error onPendingLoaded_mutate_rejects
          onPendingLoaded_validate_error onPendingLoaded_validate_rejects getStatus_def)
qed

theorem C4_webhook_failures_witness:
  "(\<exists>st. fst (Do handlerMutateError (atSecond 1000) instance0 specHooks statusScheduled)
            = Return (Some st) (Some (Error ''timeout''))
        \<and> Phase st = AssetFailed \<and> Reason st = AssetMutationError)
   \<and> (\<exists>st. fst (Do handlerMutateRejects (atSecond 1000) instance0 specHooks statusScheduled)
            = Return (Some st) None
        \<and> Phase st = AssetFailed \<and> Reason st = AssetMutationFailed)
   \<and> (\<exists>st. fst (Do handlerValidateError (atSecond 1000) instance0 specHooks statusScheduled)
            = Return (Some st) (Some (Error ''timeout''))
        \<and> Phase st = AssetFailed \<and> Reason st = AssetValidationError)
   \<and> (\<exists>st. fst (Do handlerValidateRejects (atSecond 1000) instance0 specHooks statusScheduled)
            = Return (Some st) None
        \<and> Phase st = AssetFailed \<and> Reason st = AssetValidationFailed)"
proof -
  have pre:
    "GetDeletionTimestamp instance0 = None"
    "ObservedGeneration statusScheduled = GetGeneration instance0"
    "\<And>h. \<not> isOnReady h statusScheduled (atSecond 1000)"
    "\<And>h. isOnPending h statusScheduled (atSecond 1000) \<or> isOnFailed statusScheduled"
    by (simp_all add: scenario_defs getStatus_def isOnReady_def isOnPending_def)
  have a: "\<exists>st. fst (Do handlerMutateError (atSecond 1000) instance0 specHooks statusScheduled)
            = Return (Some st) (Some (Error ''timeout''))
        \<and> Phase st = AssetFailed \<and> Reason st = AssetMutationError"
    using C4_webhook_failures [OF pre, where h = handlerMutateError and spec = specHooks
        and bs = bucket0 and objs = "[''a1/old.md'']" and basePath = "''/tmp/w''"
        and filenames = "[''a.md'', ''b.md'']" and r = emptyResult and e = "Error ''timeout''"]
    by (simp add: scenario_defs)
  have b: "\<exists>st. fst (Do handlerMutateRejects (atSecond 1000) instance0 specHooks statusScheduled)
            = Return (Some st) None
        \<and> Phase st = AssetFailed \<and> Reason st = AssetMutationFailed"
    using C4_webhook_failures [OF pre, where h = handlerMutateRejects and spec = specHooks
        and bs = bucket0 and objs = "[''a1/old.md'']" and basePath = "''/tmp/w''"
        and filenames = "[''a.md'', ''b.md'']" and r = failedResult]
    by (simp add: scenario_defs)
  have c: "\<exists>st. fst (Do handlerValidateError (atSecond 1000) instance0 specHooks statusScheduled)
            = Return (Some st) (Some (Error ''timeout''))
        \<and> Phase st = AssetFailed \<and> Reason st = AssetValidationError"
    using C4_webhook_failures [OF pre, where h = handlerValidateError and spec = specHooks
        and bs = bucket0 and objs = "[''a1/old.md'']" and basePath = "''/tmp/w''"
        and filenames = "[''a.md'', ''b.md'']" and r = emptyResult and e = "Error ''timeout''"]
    by (simp add: scenario_defs)
  have d: "\<exists>st. fst (Do handlerValidateRejects (atSecond 1000) instance0 specHooks statusScheduled)
            = Return (Some st) None
        \<and> Phase st = AssetFailed \<and> Reason st = AssetValidationFailed"
    using C4_webhook_failures [OF pre, where h = handlerValidateRejects and spec = specHooks
        and bs = bucket0 and objs = "[''a1/old.md'']" and basePath = "''/tmp/w''"
        and filenames = "[''a.md'', ''b.md'']" and r = failedResult]
    by (simp add: scenario_defs)
  from a b c d show ?thesis by blast
qed

subsection \<open>Ready re-verification\<close>

lemmas ready_defs = statusReady_def handlerLater_def handlerMissing_def handlerStoreError_def
  handlerBucketError_def

text \<open>
  Claim C6. In Ready re-verification (phase Ready, \<open>now\<close> after
  \<open>lastHeartbeatTime + relistInterval\<close> by Go's \<open>After\<close> and \<open>Add\<close>, which
  \<open>After_Add_nanos\<close> relates to \<open>>\<close> and \<open>+\<close>; deletion timestamp unset, generation
  observed),
  when the bucket is ready and \<open>ContainsAllObjects\<close> answers true without error for the
  names of \<open>status.assetRef.files\<close>, \<open>Do\<close> returns a nil error and a status
  Ready/Uploaded with the base URL and the files of the input status and the current
  time as heartbeat; when the input status already had reason Uploaded and its message,
  the returned status is the input status with the heartbeat replaced.
\<close>

theorem C6_ready_refresh:
  assumes "GetDeletionTimestamp instance = None"
    and "ObservedGeneration status = GetGeneration instance"
    and "Phase status = AssetReady"
    and "After now (Add (LastHeartbeatTime status) (relistInterval h))"
    and "findBucketStatus h (GetNamespace instance) (BucketRefName spec) = (Some bs, True, None)"
    and "ContainsAllObjects h (RemoteName bs) (GetName instance)
           (extractNames (Files (AssetRef status))) = (True, None)"
  shows "\<exists>st. fst (Do h now instance spec status) = Return (Some st) None
           \<and> Phase st = AssetReady \<and> Reason st = AssetUploaded
           \<and> BaseURL (AssetRef st) = BaseURL (AssetRef status)
           \<and> Files (AssetRef st) = Files (AssetRef status)
           \<and> LastHeartbeatTime st = v1Now h
           \<and> ObservedGeneration st = ObservedGeneration status
           \<and> (Reason status = AssetUploaded \<and> Message status = reasonMessagef h AssetUploaded []
                \<longrightarrow> st = status \<lparr> LastHeartbeatTime := v1Now h \<rparr>)"
proof -
  have "isOnReady h status now"
    using assms(3,4) by (simp add: isOnReady_def)
  then have run: "Do h now instance spec status = onReady h instance spec status"
    using assms(1,2) by (simp add: Do_dispatch_ready)
  have res: "fst (onReady h instance spec status)
               = Return (Some (getReadyStatus h instance (BaseURL (AssetRef status))
                                 (Files (AssetRef status)) AssetUploaded [])) None"
    using assms(5,6) by (simp add: onReady_def Let_def)
  show ?thesis
    unfolding run res
    using assms(2,3) by (simp add: getReadyStatus_def getStatus_def)
qed

theorem C6_ready_refresh_witness:
  "\<exists>st. fst (Do handlerLater (atSecond 1101) instance0 spec0 statusReady) = Return (Some st) None
         \<and> Phase st = AssetReady \<and> Reason st = AssetUploaded
         \<and> BaseURL (AssetRef st) = BaseURL (AssetRef statusReady)
         \<and> Files (AssetRef st) = Files (AssetRef statusReady)
         \<and> LastHeartbeatTime st = atSecond 1200
         \<and> st = statusReady \<lparr> LastHeartbeatTime := atSecond 1200 \<rparr>"
proof -
  have now: "v1Now handlerLater = atSecond 1200"
    by (simp add: ready_defs)
  have same: "Reason statusReady = AssetUploaded
                \<and> Message statusReady = reasonMessagef handlerLater AssetUploaded []"
    by (simp add: ready_defs scenario_defs)
  have "\<exists>st. fst (Do handlerLater (atSecond 1101) instance0 spec0 statusReady) = Return (Some st) None
           \<and> Phase st = AssetReady \<and> Reason st = AssetUploaded
           \<and> BaseURL (AssetRef st) = BaseURL (AssetRef statusReady)
           \<and> Files (AssetRef st) = Files (AssetRef statusReady)
           \<and> LastHeartbeatTime st = v1Now handlerLater
           \<and> ObservedGeneration st = ObservedGeneration statusReady
           \<and> (Reason statusReady = AssetUploaded
                \<and> Message statusReady = reasonMessagef handlerLater AssetUploaded []
                \<longrightarrow> st = statusReady \<lparr> LastHeartbeatTime := v1Now handlerLater \<rparr>)"
    by (rule C6_ready_refresh [where bs = bucket0])
       (simp_all add: ready_defs scenario_defs time_defs)
  with same show ?thesis unfolding now by blast
qed

text \<open>
  Claim C10. In Ready re-verification with the bucket ready, \<open>ContainsAllObjects\<close>
  answering false with a nil error makes \<open>Do\<close> return Failed/MissingContent together
  with a nil error, and the next call of \<open>Do\<close> on that status (same instance, any
  handler, time and spec) is the pending pipeline, reached through the retryable-failed
  branch. A store error and a bucket probe error of the same branch return Failed
  together with the error itself.
\<close>

theorem C10_missing_content:
  assumes "GetDeletionTimestamp instance = None"
    and "ObservedGeneration status = GetGeneration instance"
    and "Phase status = AssetReady"
    and "After now (Add (LastHeartbeatTime status) (relistInterval h))"
  shows "(findBucketStatus h (GetNamespace instance) (BucketRefName spec) = (Some bs, True, None)
          \<and> ContainsAllObjects h (RemoteName bs) (GetName instance)
               (extractNames (Files (AssetRef status))) = (False, None)
          \<longrightarrow> (\<exists>st. fst (Do h now instance spec status) = Return (Some st) None
                 \<and> Phase st = AssetFailed \<and> Reason st = AssetMissingContent
                 \<and> Do h' now' instance spec' st = onPending h' instance spec' st))
       \<and> (findBucketStatus h (GetNamespace instance) (BucketRefName spec) = (Some bs, True, None)
          \<and> ContainsAllObjects h (RemoteName bs) (GetName instance)
               (extractNames (Files (AssetRef status))) = (found, Some e)
          \<longrightarrow> (\<exists>st. fst (Do h now instance spec status) = Return (Some st) (Some e)
                 \<and> Phase st = AssetFailed
                 \<and> Reason st = AssetRemoteContentVerificationError))
       \<and> (findBucketStatus h (GetNamespace instance) (BucketRefName spec) = (b, ready, Some e)
          \<longrightarrow> (\<exists>st. fst (Do h now instance spec status) = Return (Some st) (Some e)
                 \<and> Phase st = AssetFailed \<and> Reason st = AssetBucketError))"
proof -
  have "isOnReady h status now"
    using assms(3,4) by (simp add: isOnReady_def)
  then have run: "Do h now instance spec status = onReady h instance spec status"
    using assms(1,2) by (simp add: Do_dispatch_ready)
  have next_call: "Do h' now' instance spec'
                     (getStatus h instance AssetFailed AssetMissingContent [])
                   = onPending h' instance spec'
                       (getStatus h instance AssetFailed AssetMissingContent [])"
    by (rule Do_dispatch_pending)
       (simp_all add: assms(1) getStatus_def isOnReady_def isOnFailed_def)
  show ?thesis
    unfolding run
  proof (intro conjI impI)
    assume "findBucketStatus h (GetNamespace instance) (BucketRefName spec) = (Some bs, True, None)
          \<and> ContainsAllObjects h (RemoteName bs) (GetName instance)
               (extractNames (Files (AssetRef status))) = (False, None)"
    then have "fst (onReady h instance spec status)
                 = Return (Some (getStatus h instance AssetFailed AssetMissingContent [])) None"
      by (simp add: onReady_def Let_def)
    with next_call
    show "\<exists>st. fst (onReady h instance spec status) = Return (Some st) None
                 \<and> Phase st = AssetFailed \<and> Reason st = AssetMissingContent
                 \<and> Do h' now' instance spec' st = onPending h' instance spec' st"
      by (simp add: getStatus_def)
  next
    assume "findBucketStatus h (GetNamespace instance) (BucketRefName spec) = (Some bs, True, None)
          \<and> ContainsAllObjects h (RemoteName bs) (GetName instance)
               (extractNames (Files (AssetRef status))) = (found, Some e)"
    then show "\<exists>st. fst (onReady h instance spec status) = Return (Some st) (Some e)
                 \<and> Phase st = AssetFailed
                 \<and> Reason st = AssetRemoteContentVerificationError"
      by (simp add: onReady_def Let_def getStatus_def)
  next
    assume "findBucketStatus h (GetNamespace instance) (BucketRefName spec) = (b, ready, Some e)"
    then show "\<exists>st. fst (onReady h instance spec status) = Return (Some st) (Some e)
                 \<and> Phase st = AssetFailed \<and> Reason st = AssetBucketError"
      by (simp add: onReady_def Let_def getStatus_def)
  qed
qed


theorem C10_missing_content_witness:
  "(\<exists>st. fst (Do handlerMissing (atSecond 1101) instance0 spec0 statusReady) = Return (Some st) None
        \<and> Phase st = AssetFailed \<and> Reason st = AssetMissingContent
        \<and> Do handler0 (atSecond 1300) instance0 spec0 st = onPending handler0 instance0 spec0 st)
   \<and> (\<exists>st. fst (Do handlerStoreError (atSecond 1101) instance0 spec0 statusReady)
              = Return (Some st) (Some (Error ''io''))
        \<and> Phase st = AssetFailed \<and> Reason st = AssetRemoteContentVerificationError)
   \<and> (\<exists>st. fst (Do handlerBucketError (atSecond 1101) instance0 spec0 statusReady)
              = Return (Some st) (Some (Error ''api''))
        \<and> Phase st = AssetFailed \<and> Reason st = AssetBucketError)"
proof -
  have pre:
    "GetDeletionTimestamp instance0 = None"
    "ObservedGeneration statusReady = GetGeneration instance0"
    "Phase statusReady = AssetReady"
    and late: "\<And>h. relistInterval h = 100000000000
             \<Longrightarrow> After (atSecond 1101) (Add (LastHeartbeatTime statusReady) (relistInterval h))"
    by (simp_all add: ready_defs scenario_defs time_defs)
  have a: "\<exists>st. fst (Do handlerMissing (atSecond 1101) instance0 spec0 statusReady) = Return (Some st) None
        \<and> Phase st = AssetFailed \<and> Reason st = AssetMissingContent
        \<and> Do handler0 (atSecond 1300) instance0 spec0 st = onPending handler0 instance0 spec0 st"
    using C10_missing_content [OF pre late, where h = handlerMissing and spec = spec0
        and bs = bucket0 and h' = handler0 and now' = "atSecond 1300" and spec' = spec0]
    by (simp add: ready_defs scenario_defs)
  have b: "\<exists>st. fst (Do handlerStoreError (atSecond 1101) instance0 spec0 statusReady)
              = Return (Some st) (Some (Error ''io''))
        \<and> Phase st = AssetFailed \<and> Reason st = AssetRemoteContentVerificationError"
    using C10_missing_content [OF pre late, where h = handlerStoreError and spec = spec0
        and bs = bucket0 and found = False and e = "Error ''io''"]
    by (simp add: ready_defs scenario_defs)
  have c: "\<exists>st. fst (Do handlerBucketError (atSecond 1101) instance0 spec0 statusReady)
              = Return (Some st) (Some (Error ''api''))
        \<and> Phase st = AssetFailed \<and> Reason st = AssetBucketError"
    using C10_missing_content [OF pre late, where h = handlerBucketError and spec = spec0
        and b = None and ready = False and e = "Error ''api''"]
    by (simp add: ready_defs scenario_defs)
  from a b c show ?thesis by blast
qed

subsection \<open>The workspace is released\<close>

lemma deleteRemoteContent_no_load:
  "CallLoad u n m f \<notin> set (snd (deleteRemoteContent h object bucketName))"
  by (simp add: deleteRemoteContent_def Let_def recordNormalEventf_def
      split: prod.splits option.splits)

lemma onPendingLoaded_no_load:
  "CallLoad u n m f \<notin> set (snd (onPendingLoaded h object spec bs basePath filenames err))"
proof (cases err)
  case (Some e)
  then show ?thesis
    by (simp add: onPendingLoaded_def recordWarningEventf_def)
next
  case None
  obtain mr me where mut:
    "Mutate h basePath filenames (MutationWebhookService (Source spec)) = (mr, me)"
    by (cases "Mutate h basePath filenames (MutationWebhookService (Source spec))") auto
  obtain vr ve where val:
    "Validate h basePath filenames (ValidationWebhookService (Source spec)) = (vr, ve)"
    by (cases "Validate h basePath filenames (ValidationWebhookService (Source spec))") auto
  obtain xr xe where ext:
    "Extract h basePath filenames (MetadataWebhookService (Source spec)) = (xr, xe)"
    by (cases "Extract h basePath filenames (MetadataWebhookService (Source spec))") auto
  show ?thesis
    unfolding onPendingLoaded_def Let_def None mut val ext
    by (simp add: recordNormalEventf_def recordWarningEventf_def split: option.splits)
qed

lemma onReady_no_load:
  "CallLoad u n m f \<notin> set (snd (onReady h object spec status))"
  by (simp add: onReady_def Let_def recordWarningEventf_def
      split: prod.splits option.splits)

lemma deleteRemoteContent_no_load':
  "deleteRemoteContent h object bucketName = (r, t) \<Longrightarrow> CallLoad u n m f \<notin> set t"
  using deleteRemoteContent_no_load [of u n m f h object bucketName] by simp

lemma onDelete_no_load:
  "CallLoad u n m f \<notin> set (snd (onDelete h object spec))"
  by (auto simp: onDelete_def Let_def split: prod.splits option.splits
      dest: deleteRemoteContent_no_load')

lemma onPending_trace:
  "(\<forall>u n m f. CallLoad u n m f \<notin> set (snd (onPending h object spec status)))
   \<or> (\<exists>before between.
         snd (onPending h object spec status)
           = before
             @ CallLoad (URL (Source spec)) (GetName object) (Mode (Source spec))
                        (Filter (Source spec))
             # between
             @ [CallClean (fst (Load h (URL (Source spec)) (GetName object)
                                  (Mode (Source spec)) (Filter (Source spec))))]
         \<and> (\<forall>u n m f. CallLoad u n m f \<notin> set before \<union> set between))"
proof -
  obtain bucketStatus isReady err where
    probe: "findBucketStatus h (GetNamespace object) (BucketRefName spec)
              = (bucketStatus, isReady, err)"
    by (cases "findBucketStatus h (GetNamespace object) (BucketRefName spec)") auto
  show ?thesis
  proof (cases "err = None \<and> isReady \<and> bucketStatus \<noteq> None")
    case False
    then have "\<forall>u n m f. CallLoad u n m f \<notin> set (snd (onPending h object spec status))"
      using probe
      by (auto simp: onPending_def Let_def recordWarningEventf_def split: option.splits)
    then show ?thesis by blast
  next
    case True
    then obtain bs where bs: "bucketStatus = Some bs" and ok: "err = None" "isReady"
      by auto
    obtain derr t2 where del: "deleteRemoteContent h object (RemoteName bs) = (derr, t2)"
      by (cases "deleteRemoteContent h object (RemoteName bs)") auto
    have t2: "\<And>u n m f. CallLoad u n m f \<notin> set t2"
      using del by (rule deleteRemoteContent_no_load')
    show ?thesis
    proof (cases derr)
      case (Some e)
      then have "\<forall>u n m f. CallLoad u n m f \<notin> set (snd (onPending h object spec status))"
        using probe bs ok del t2
        by (simp add: onPending_def Let_def recordWarningEventf_def)
      then show ?thesis by blast
    next
      case None
      obtain basePath filenames lerr where
        load: "Load h (URL (Source spec)) (GetName object) (Mode (Source spec))
                 (Filter (Source spec)) = (basePath, filenames, lerr)"
        by (cases "Load h (URL (Source spec)) (GetName object) (Mode (Source spec))
                     (Filter (Source spec))") auto
      obtain r t4 where
        body: "onPendingLoaded h object spec bs basePath filenames lerr = (r, t4)"
        by (cases "onPendingLoaded h object spec bs basePath filenames lerr") auto
      have t4: "\<And>u n m f. CallLoad u n m f \<notin> set t4"
        using onPendingLoaded_no_load [of _ _ _ _ h object spec bs basePath filenames lerr]
        by (simp add: body)
      have "snd (onPending h object spec status)
              = (CallFindBucketStatus (GetNamespace object) (BucketRefName spec) # t2)
                @ CallLoad (URL (Source spec)) (GetName object) (Mode (Source spec))
                           (Filter (Source spec))
                # t4 @ [CallClean basePath]"
        using probe bs ok del None load body by (simp add: onPending_def Let_def)
      moreover have "\<forall>u n m f. CallLoad u n m f
                       \<notin> set (CallFindBucketStatus (GetNamespace object) (BucketRefName spec) # t2)
                         \<union> set t4"
        using t2 t4 by simp
      ultimately show ?thesis
        using load by (metis fst_conv)
    qed
  qed
qed

text \<open>
  Claim C7. Whenever a call of \<open>Do\<close> invokes \<open>Loader.Load\<close>, the trace of that call
  ends with \<open>Loader.Clean\<close> on the base path which that \<open>Load\<close> returned, after the
  \<open>Load\<close>: on every exit path of the pending pipeline, whatever the later stages
  answer.
\<close>

theorem C7_clean_after_load:
  assumes "CallLoad url name mode fltr \<in> set (snd (Do h now instance spec status))"
  shows "\<exists>before between.
           snd (Do h now instance spec status)
             = before @ CallLoad url name mode fltr # between
               @ [CallClean (fst (Load h url name mode fltr))]"
proof -
  have run: "Do h now instance spec status = onPending h instance spec status"
    using assms onDelete_no_load [of url name mode fltr h "instance" spec]
      onReady_no_load [of url name mode fltr h "instance" spec status]
    by (auto simp: Do_def split: if_splits)
  from onPending_trace [of h "instance" spec status]
  show ?thesis
  proof
    assume "\<forall>u n m f. CallLoad u n m f \<notin> set (snd (onPending h instance spec status))"
    with assms run show ?thesis by simp
  next
    assume "\<exists>before between.
         snd (onPending h instance spec status)
           = before
             @ CallLoad (URL (Source spec)) (GetName instance) (Mode (Source spec))
                        (Filter (Source spec))
             # between
             @ [CallClean (fst (Load h (URL (Source spec)) (GetName instance)
                                  (Mode (Source spec)) (Filter (Source spec))))]
         \<and> (\<forall>u n m f. CallLoad u n m f \<notin> set before \<union> set between)"
    then obtain before between where
      shape: "snd (onPending h instance spec status)
           = before
             @ CallLoad (URL (Source spec)) (GetName instance) (Mode (Source spec))
                        (Filter (Source spec))
             # between
             @ [CallClean (fst (Load h (URL (Source spec)) (GetName instance)
                                  (Mode (Source spec)) (Filter (Source spec))))]"
      and none: "\<forall>u n m f. CallLoad u n m f \<notin> set before \<union> set between"
      by blast
    from assms have "CallLoad url name mode fltr
                       = CallLoad (URL (Source spec)) (GetName instance) (Mode (Source spec))
                                  (Filter (Source spec))"
      unfolding run shape using none by auto
    then have args: "URL (Source spec) = url" "GetName instance = name"
      "Mode (Source spec) = mode" "Filter (Source spec) = fltr"
      by simp_all
    show ?thesis
      unfolding run using shape unfolding args by blast
  qed
qed

theorem C7_clean_after_load_witness:
  "\<exists>before between.
     snd (Do handlerValidateError (atSecond 1000) instance0 specHooks statusScheduled)
       = before @ CallLoad ''http://x/a.zip'' ''a1'' AssetPackage [] # between
         @ [CallClean (fst (Load handlerValidateError ''http://x/a.zip'' ''a1'' AssetPackage []))]"
proof (rule C7_clean_after_load)
  have run: "Do handlerValidateError (atSecond 1000) instance0 specHooks statusScheduled
               = onPending handlerValidateError instance0 specHooks statusScheduled"
    by (rule Do_dispatch_pending)
       (simp_all add: scenario_defs getStatus_def isOnReady_def isOnPending_def)
  show "CallLoad ''http://x/a.zip'' ''a1'' AssetPackage []
          \<in> set (snd (Do handlerValidateError (atSecond 1000) instance0 specHooks statusScheduled))"
    unfolding run
    by (simp add: onPending_def deleteRemoteContent_def Let_def scenario_defs
        split: prod.splits)
qed

subsection \<open>Events of failing stages\<close>

text \<open>
  For every input on which the mutator answers with a transport error, the status has
  reason \<open>AssetMutationError\<close> and the only Warning event has reason
  \<open>AssetMutationFailed\<close>. The validator's branch uses \<open>AssetValidationError\<close> for both.
\<close>

lemma onPending_trace_after_load:
  assumes "findBucketStatus h (GetNamespace object) (BucketRefName spec) = (Some bs, True, None)"
    and "fst (deleteRemoteContent h object (RemoteName bs)) = None"
    and "Load h (URL (Source spec)) (GetName object) (Mode (Source spec)) (Filter (Source spec))
           = (basePath, filenames, err)"
  shows "snd (onPending h object spec status)
           = CallFindBucketStatus (GetNamespace object) (BucketRefName spec)
             # snd (deleteRemoteContent h object (RemoteName bs))
             @ CallLoad (URL (Source spec)) (GetName object) (Mode (Source spec))
                        (Filter (Source spec))
             # snd (onPendingLoaded h object spec bs basePath filenames err)
             @ [CallClean basePath]"
  using assms
  by (cases "deleteRemoteContent h object (RemoteName bs)")
     (simp add: onPending_def Let_def split: prod.splits)

lemma mutate_error_event_reason:
  assumes "findBucketStatus h (GetNamespace object) (BucketRefName spec) = (Some bs, True, None)"
    and "ListObjects h (RemoteName bs) (GetName object) = (objs, None)"
    and "objs \<noteq> [] \<longrightarrow> DeleteObjects h (RemoteName bs) (GetName object) = None"
    and "Load h (URL (Source spec)) (GetName object) (Mode (Source spec)) (Filter (Source spec))
           = (basePath, filenames, None)"
    and "MutationWebhookService (Source spec) \<noteq> []"
    and "Mutate h basePath filenames (MutationWebhookService (Source spec)) = (r, Some e)"
  shows "fst (onPending h object spec status)
           = Return (Some (getStatus h object AssetFailed AssetMutationError [errorString e]))
                    (Some e)"
    and "snd (onPending h object spec status)
           = CallFindBucketStatus (GetNamespace object) (BucketRefName spec)
             # snd (deleteRemoteContent h object (RemoteName bs))
             @ [CallLoad (URL (Source spec)) (GetName object) (Mode (Source spec))
                         (Filter (Source spec)),
                Eventf ''Normal'' AssetPulled [],
                CallMutate basePath filenames (MutationWebhookService (Source spec)),
                Eventf ''Warning'' AssetMutationFailed [errorString e],
                CallClean basePath]"
proof -
  have clean: "fst (deleteRemoteContent h object (RemoteName bs)) = None"
    using assms(2,3) by (rule deleteRemoteContent_ok)
  show "fst (onPending h object spec status)
           = Return (Some (getStatus h object AssetFailed AssetMutationError [errorString e]))
                    (Some e)"
    using onPending_after_load [OF assms(1) clean assms(4)]
      onPendingLoaded_mutate_error [OF assms(5,6)]
    by simp
  have body: "snd (onPendingLoaded h object spec bs basePath filenames None)
                = [Eventf ''Normal'' AssetPulled [],
                   CallMutate basePath filenames (MutationWebhookService (Source spec)),
                   Eventf ''Warning'' AssetMutationFailed [errorString e]]"
    using assms(5,6)
    by (simp add: onPendingLoaded_def Let_def recordNormalEventf_def recordWarningEventf_def)
  show "snd (onPending h object spec status)
           = CallFindBucketStatus (GetNamespace object) (BucketRefName spec)
             # snd (deleteRemoteContent h object (RemoteName bs))
             @ [CallLoad (URL (Source spec)) (GetName object) (Mode (Source spec))
                         (Filter (Source spec)),
                Eventf ''Normal'' AssetPulled [],
                CallMutate basePath filenames (MutationWebhookService (Source spec)),
                Eventf ''Warning'' AssetMutationFailed [errorString e],
                CallClean basePath]"
    using onPending_trace_after_load [OF assms(1) clean assms(4)] body by simp
qed

lemma validate_error_event_reason:
  assumes "findBucketStatus h (GetNamespace object) (BucketRefName spec) = (Some bs, True, None)"
    and "ListObjects h (RemoteName bs) (GetName object) = (objs, None)"
    and "objs \<noteq> [] \<longrightarrow> DeleteObjects h (RemoteName bs) (GetName object) = None"
    and "Load h (URL (Source spec)) (GetName object) (Mode (Source spec)) (Filter (Source spec))
           = (basePath, filenames, None)"
    and "MutationWebhookService (Source spec) = []"
    and "ValidationWebhookService (Source spec) \<noteq> []"
    and "Validate h basePath filenames (ValidationWebhookService (Source spec)) = (r, Some e)"
  shows "fst (onPending h object spec status)
           = Return (Some (getStatus h object AssetFailed AssetValidationError [errorString e]))
                    (Some e)"
    and "snd (onPending h object spec status)
           = CallFindBucketStatus (GetNamespace object) (BucketRefName spec)
             # snd (deleteRemoteContent h object (RemoteName bs))
             @ [CallLoad (URL (Source spec)) (GetName object) (Mode (Source spec))
                         (Filter (Source spec)),
                Eventf ''Normal'' AssetPulled [],
                CallValidate basePath filenames (ValidationWebhookService (Source spec)),
                Eventf ''Warning'' AssetValidationError [errorString e],
                CallClean basePath]"
proof -
  have clean: "fst (deleteRemoteContent h object (RemoteName bs)) = None"
    using assms(2,3) by (rule deleteRemoteContent_ok)
  have skip: "MutationWebhookService (Source spec) = []
             \<or> (\<exists>m. Mutate h basePath filenames (MutationWebhookService (Source spec)) = (m, None)
                    \<and> Success m)"
    using assms(5) by simp
  show "fst (onPending h object spec status)
           = Return (Some (getStatus h object AssetFailed AssetValidationError [errorString e]))
                    (Some e)"
    using onPending_after_load [OF assms(1) clean assms(4)]
      onPendingLoaded_validate_error [OF skip assms(6,7)]
    by simp
  have body: "snd (onPendingLoaded h object spec bs basePath filenames None)
                = [Eventf ''Normal'' AssetPulled [],
                   CallValidate basePath filenames (ValidationWebhookService (Source spec)),
                   Eventf ''Warning'' AssetValidationError [errorString e]]"
    using assms(5,6,7)
    by (simp add: onPendingLoaded_def Let_def recordNormalEventf_def recordWarningEventf_def)
  show "snd (onPending h object spec status)
           = CallFindBucketStatus (GetNamespace object) (BucketRefName spec)
             # snd (deleteRemoteContent h object (RemoteName bs))
             @ [CallLoad (URL (Source spec)) (GetName object) (Mode (Source spec))
                         (Filter (Source spec)),
                Eventf ''Normal'' AssetPulled [],
                CallValidate basePath filenames (ValidationWebhookService (Source spec)),
                Eventf ''Warning'' AssetValidationError [errorString e],
                CallClean basePath]"
    using onPending_trace_after_load [OF assms(1) clean assms(4)] body by simp
qed

text \<open>
  Claim C8. The claim: the Warning event recorded at a failing stage of the pending
  pipeline carries the reason written into the returned Failed status; in particular a
  transport error of the mutator records a Warning event with reason MutationError.
  The theorem evaluates the handler in the scenario where the mutator answers with a
  transport error: the returned status has reason MutationError, while the Warning
  event of the trace has reason MutationFailed.
\<close>

theorem C8_mutation_error_event:
  "Do handlerMutateError (atSecond 1000) instance0 specHooks statusScheduled
     = (Return
          (Some \<lparr> Phase = AssetFailed, Reason = AssetMutationError, Message = ''timeout'',
                  LastHeartbeatTime = atSecond 1000, ObservedGeneration = 1,
                  AssetRef = \<lparr> BaseURL = [], Files = [] \<rparr> \<rparr>)
          (Some (Error ''timeout'')),
        [CallFindBucketStatus ''default'' ''b1'',
         CallListObjects ''r1'' ''a1'',
         CallDeleteObjects ''r1'' ''a1'',
         Eventf ''Normal'' AssetCleaned [],
         CallLoad ''http://x/a.zip'' ''a1'' AssetPackage [],
         Eventf ''Normal'' AssetPulled [],
         CallMutate ''/tmp/w'' [''a.md'', ''b.md''] [''http://m''],
         Eventf ''Warning'' AssetMutationFailed [''timeout''],
         CallClean ''/tmp/w''])"
  by (simp add: Do_def isOnDelete_def isOnAddOrUpdate_def isOnReady_def isOnPending_def
      onPending_def onPendingLoaded_def deleteRemoteContent_def getStatus_def Let_def
      recordNormalEventf_def recordWarningEventf_def scenario_defs)

subsection \<open>A failing bulk delete\<close>

lemmas delete_defs = instanceDeleted_def handlerDeleteFails_def

text \<open>
  Claim C9, as stated: a failing \<open>DeleteObjects\<close> after a non-empty listing is surfaced
  as CleanupError in the delete path as it is in the pending pipeline. In the delete
  path below, with the bucket ready, a non-empty listing and a failing delete, \<open>Do\<close>
  returns no status at all, only the wrapped error, and records no event.
\<close>

theorem C9_delete_path_counterexample:
  "isOnDelete instanceDeleted
   \<and> findBucketStatus handlerDeleteFails ''default'' ''b1'' = (Some bucket0, True, None)
   \<and> ListObjects handlerDeleteFails ''r1'' ''a1'' = ([''a1/old.md''], None)
   \<and> DeleteObjects handlerDeleteFails ''r1'' ''a1'' = Some (Error ''denied'')
   \<and> Do handlerDeleteFails (atSecond 1000) instanceDeleted spec0 statusReady
       = (Return None (Some (Wrap (Error ''denied'') ''while deleting asset content'')),
          [CallFindBucketStatus ''default'' ''b1'',
           CallListObjects ''r1'' ''a1'',
           CallDeleteObjects ''r1'' ''a1''])"
  by (simp add: Do_def isOnDelete_def IsZero_def atSecond_def onDelete_def
      deleteRemoteContent_def Let_def delete_defs scenario_defs)

text \<open>
  Claim C9, amended. With the bucket ready, the listing of the Asset's prefix non-empty
  and \<open>DeleteObjects\<close> failing: in the pending pipeline \<open>Do\<close> returns a status
  Failed/CleanupError together with the wrapped error and records a Warning event
  CleanupError; in the delete path \<open>Do\<close> returns no status, only the wrapped error
  \<open>while deleting asset content\<close>, and records no event.
\<close>

theorem C9_cleanup_error:
  assumes "findBucketStatus h (GetNamespace instance) (BucketRefName spec) = (Some bs, True, None)"
    and "ListObjects h (RemoteName bs) (GetName instance) = (objs, None)"
    and "objs \<noteq> []"
    and "DeleteObjects h (RemoteName bs) (GetName instance) = Some e"
  shows "(GetDeletionTimestamp instance = None
          \<and> ObservedGeneration status = GetGeneration instance
          \<and> \<not> isOnReady h status now
          \<and> (isOnPending h status now \<or> isOnFailed status)
          \<longrightarrow> (\<exists>st. Do h now instance spec status
                      = (Return (Some st) (Some (Wrap e ''while deleting asset content'')),
                         [CallFindBucketStatus (GetNamespace instance) (BucketRefName spec),
                          CallListObjects (RemoteName bs) (GetName instance),
                          CallDeleteObjects (RemoteName bs) (GetName instance),
                          Eventf ''Warning'' AssetCleanupError
                            [''while deleting asset content: '' @ errorString e]])
                 \<and> Phase st = AssetFailed \<and> Reason st = AssetCleanupError))
       \<and> (isOnDelete instance
          \<longrightarrow> Do h now instance spec status
                = (Return None (Some (Wrap e ''while deleting asset content'')),
                   [CallFindBucketStatus (GetNamespace instance) (BucketRefName spec),
                    CallListObjects (RemoteName bs) (GetName instance),
                    CallDeleteObjects (RemoteName bs) (GetName instance)]))"
proof (intro conjI impI)
  note del = deleteRemoteContent_delete_fails [OF assms(2,3,4)]
  assume "GetDeletionTimestamp instance = None
          \<and> ObservedGeneration status = GetGeneration instance
          \<and> \<not> isOnReady h status now
          \<and> (isOnPending h status now \<or> isOnFailed status)"
  then have run: "Do h now instance spec status = onPending h instance spec status"
    by (simp add: Do_dispatch_pending)
  show "\<exists>st. Do h now instance spec status
                      = (Return (Some st) (Some (Wrap e ''while deleting asset content'')),
                         [CallFindBucketStatus (GetNamespace instance) (BucketRefName spec),
                          CallListObjects (RemoteName bs) (GetName instance),
                          CallDeleteObjects (RemoteName bs) (GetName instance),
                          Eventf ''Warning'' AssetCleanupError
                            [''while deleting asset content: '' @ errorString e]])
                 \<and> Phase st = AssetFailed \<and> Reason st = AssetCleanupError"
    unfolding run
    using assms(1) del
    by (simp add: onPending_def Let_def getStatus_def recordWarningEventf_def)
next
  note del = deleteRemoteContent_delete_fails [OF assms(2,3,4)]
  assume "isOnDelete instance"
  then show "Do h now instance spec status
                = (Return None (Some (Wrap e ''while deleting asset content'')),
                   [CallFindBucketStatus (GetNamespace instance) (BucketRefName spec),
                    CallListObjects (RemoteName bs) (GetName instance),
                    CallDeleteObjects (RemoteName bs) (GetName instance)])"
    using assms(1) del by (simp add: Do_def onDelete_def Let_def)
qed

theorem C9_cleanup_error_witness:
  "(\<exists>st. Do handlerDeleteFails (atSecond 1000) instance0 spec0 statusScheduled
            = (Return (Some st) (Some (Wrap (Error ''denied'') ''while deleting asset content'')),
               [CallFindBucketStatus ''default'' ''b1'',
                CallListObjects ''r1'' ''a1'',
                CallDeleteObjects ''r1'' ''a1'',
                Eventf ''Warning'' AssetCleanupError [''while deleting asset content: denied'']])
        \<and> Phase st = AssetFailed \<and> Reason st = AssetCleanupError)
   \<and> Do handlerDeleteFails (atSecond 2000) instanceDeleted spec0 statusScheduled
       = (Return None (Some (Wrap (Error ''denied'') ''while deleting asset content'')),
          [CallFindBucketStatus ''default'' ''b1'',
           CallListObjects ''r1'' ''a1'',
           CallDeleteObjects ''r1'' ''a1''])"
proof -
  have a: "\<exists>st. Do handlerDeleteFails (atSecond 1000) instance0 spec0 statusScheduled
            = (Return (Some st) (Some (Wrap (Error ''denied'') ''while deleting asset content'')),
               [CallFindBucketStatus ''default'' ''b1'',
                CallListObjects ''r1'' ''a1'',
                CallDeleteObjects ''r1'' ''a1'',
                Eventf ''Warning'' AssetCleanupError [''while deleting asset content: denied'']])
        \<and> Phase st = AssetFailed \<and> Reason st = AssetCleanupError"
    using C9_cleanup_error [of handlerDeleteFails instance0 spec0 bucket0 "[''a1/old.md'']"
        "Error ''denied''" statusScheduled "atSecond 1000"]
    by (simp add: delete_defs scenario_defs getStatus_def isOnReady_def isOnPending_def)
  have b: "Do handlerDeleteFails (atSecond 2000) instanceDeleted spec0 statusScheduled
       = (Return None (Some (Wrap (Error ''denied'') ''while deleting asset content'')),
          [CallFindBucketStatus ''default'' ''b1'',
           CallListObjects ''r1'' ''a1'',
           CallDeleteObjects ''r1'' ''a1''])"
    using C9_cleanup_error [of handlerDeleteFails instanceDeleted spec0 bucket0 "[''a1/old.md'']"
        "Error ''denied''" statusScheduled "atSecond 2000"]
    by (simp add: delete_defs scenario_defs isOnDelete_def IsZero_def atSecond_def)
  from a b show ?thesis by blast
qed

end
